theory Spec2Isabelle
  imports Complex_Main "HOL-Library.Sublist"
begin

section \<open>Seawater thermophysical property library: values and failures\<close>

text \<open>
  The library is one JavaScript file of 24 public functions, each taking temperature
  \<open>T\<close> [C], salinity \<open>S\<close> [g/kg] and, for some, pressure \<open>P\<close> [MPa], and
  returning one number or throwing.

  Numbers: a JavaScript number is an IEEE double. The embedding computes over \<open>real\<close>:
  every decimal literal is the rational it denotes, \<open>Math.exp\<close> is \<open>exp\<close>,
  \<open>Math.log\<close> is \<open>ln\<close>, \<open>Math.log10\<close> is \<open>log 10\<close>, \<open>Math.pow\<close> with
  a literal natural exponent is \<open>^\<close> and with any other exponent is \<open>powr\<close>. Rounding,
  \<open>NaN\<close> and the infinities are outside the model; what is proved is the control flow
  (which guard fires, which error is thrown, which sub-call is made) and the exact real
  value of each formula. Where HOL and JavaScript differ on a total function
  (\<open>ln 0 = 0\<close> and \<open>x / 0 = 0\<close> in HOL) the theorems below do not rest on the HOL value.

  Failures: \<open>throw new Error(msg)\<close> is \<open>Inl (Error msg)\<close>; calling an identifier
  that is bound nowhere is \<open>Inl (ReferenceError msg)\<close>. Nothing in the file catches an
  exception, so the first failure of a call is its result: \<open>then_do\<close> is that sequencing.
\<close>

datatype js_error = Error string | ReferenceError string

type_synonym js_result = "js_error + real"

definition then_do :: "js_error + 'a \<Rightarrow> ('a \<Rightarrow> js_error + 'b) \<Rightarrow> js_error + 'b" where
  "then_do r k = (case r of Inl e \<Rightarrow> Inl e | Inr v \<Rightarrow> k v)"

text \<open>
  \<open>x || d\<close> on an optional numeric argument: \<open>undefined\<close> (argument not supplied)
  and \<open>0\<close> are falsy and give \<open>d\<close>; any other real number gives itself.
\<close>

fun js_or :: "real option \<Rightarrow> real \<Rightarrow> real" where
  "js_or None d = d"
| "js_or (Some x) d = (if x = 0 then d else x)"

subsection \<open>Vapor pressure (\<open>SW_Psat\<close>, source lines 874--901)\<close>

definition SW_Psat_Pv_w :: "real \<Rightarrow> real" where
  "SW_Psat_Pv_w T =
    (let T_K = T + 273.15;
         a1 = - 5800.2206;
         a2 = 1.3914993;
         a3 = - 0.048640239;
         a4 = 0.000041764768;
         a5 = - 0.000000014452093;
         a6 = 6.5459673
     in exp ((a1 / T_K) + a2 + a3 * T_K + a4 * T_K ^ 2 + a5 * T_K ^ 3 + a6 * ln T_K))"

definition SW_Psat_value :: "real \<Rightarrow> real \<Rightarrow> real" where
  "SW_Psat_value T S =
    (let b1 = - 4.5818 / 10 ^ 4;
         b2 = - 2.0443 / 10 ^ 6
     in SW_Psat_Pv_w T * exp (b1 * S + b2 * S ^ 2))"

definition SW_Psat :: "real \<Rightarrow> real \<Rightarrow> js_result" where
  "SW_Psat T S =
    (if T < 0 \<or> T > 180 then
       Inl (Error ''Temperature is out of range for vapor pressure function 0 < T < 180 C'')
     else if S < 0 \<or> S > 160 then
       Inl (Error ''Salinity is out of range for vapor pressure function 0 < S < 160 g/kg'')
     else Inr (SW_Psat_value T S))"

subsection \<open>Boiling point elevation (\<open>SW_BPE\<close>, lines 14--35)\<close>



subsection \<open>Specific Gibbs energy (\<open>SW_Gibbs\<close>, lines 513--572)\<close>

text \<open>Line 528: the reference pressure of \<open>SW_Gibbs\<close>.\<close>

definition SW_Gibbs_P0 :: "real \<Rightarrow> real \<Rightarrow> js_result" where
  "SW_Gibbs_P0 T S =
    (if T < 100 then Inr 0.101325 else then_do (SW_Psat T S) (\<lambda>p. Inr (p / 10 ^ 6)))"

text \<open>Lines 531--537: the pure-water polynomial \<open>g_w\<close>.\<close>

definition SW_Gibbs_g_w :: "real \<Rightarrow> real" where
  "SW_Gibbs_g_w T =
    (let a1 = 1.0677 * 10 ^ 2;
         a2 = - 1.4303;
         a3 = - 7.6139;
         a4 = 8.3627 / 10 ^ 3;
         a5 = - 7.8754 / 10 ^ 6
     in a1 + a2 * T + a3 * T ^ 2 + a4 * T ^ 3 + a5 * T ^ 4)"

text \<open>Lines 540--556: the salinity term, \<open>0\<close> unless \<open>S > 0\<close>.\<close>

definition SW_Gibbs_g_sw_P0 :: "real \<Rightarrow> real \<Rightarrow> real" where
  "SW_Gibbs_g_sw_P0 T S =
    (let b1 = - 2.4176 * 10 ^ 2;
         b2 = - 6.2462 / 10;
         b3 = 7.4761 / 10 ^ 3;
         b4 = 1.3836 / 10 ^ 3;
         b5 = - 6.7157 / 10 ^ 6;
         b6 = 5.1993 / 10 ^ 4;
         b7 = 9.9176 / 10 ^ 9;
         b8 = 6.6448 * 10;
         b9 = 2.0681 / 10
     in if S > 0 then
          b1 * S + b2 * S * T + b3 * S * T ^ 2 +
          b4 * S ^ 2 * T + b5 * S ^ 2 * T ^ 2 +
          b6 * S ^ 3 + b7 * S ^ 3 * T ^ 2 +
          b8 * S * ln S + b9 * S * T * ln S
        else 0)"

text \<open>Lines 559--569: the pressure term.\<close>

definition SW_Gibbs_g_sw_P :: "real \<Rightarrow> real \<Rightarrow> real \<Rightarrow> real \<Rightarrow> real" where
  "SW_Gibbs_g_sw_P T S P P0 =
    (let c1 = 996.1978;
         c2 = 3.491 / 10 ^ 2;
         c3 = 4.7231 / 10 ^ 3;
         c4 = - 6.9037 / 10 ^ 6;
         c5 = - 7.2431 / 10;
         c6 = 1.5712 / 10 ^ 3;
         c7 = - 1.8919 / 10 ^ 5;
         c8 = 2.5939 / 10 ^ 8
     in (P - P0) * (c1 + c2 * T + c3 * T ^ 2 + c4 * T ^ 3 +
                    S * (c5 + c6 * T + c7 * T ^ 2 + c8 * T ^ 3)))"

definition SW_Gibbs :: "real \<Rightarrow> real \<Rightarrow> real \<Rightarrow> js_result" where
  "SW_Gibbs T S P =
    (if T < 10 \<or> T > 120 then
       Inl (Error ''Temperature is out of range for Gibbs function 10 < T < 120 C'')
     else if S < 0 \<or> S > 120 then
       Inl (Error ''Salinity is out of range for Gibbs function 0 < S < 120 g/kg'')
     else then_do (SW_Psat T S) (\<lambda>p.
       let P_sat = p / 10 ^ 6 in
       if P < P_sat \<or> P > 12 then
         Inl (Error ''Pressure is out of range for Gibbs function P_sat < P < 12 MPa'')
       else then_do (SW_Gibbs_P0 T S) (\<lambda>P0.
         Inr (SW_Gibbs_g_w T + SW_Gibbs_g_sw_P0 T S + SW_Gibbs_g_sw_P T S P P0))))"

subsection \<open>Chemical potentials (\<open>SW_ChemPot_s\<close>, lines 45--96; \<open>SW_ChemPot_w\<close>, lines 106--162)\<close>

text \<open>Lines 60--65: the reference pressure of \<open>SW_ChemPot_s\<close>, an if/else statement.\<close>

definition SW_ChemPot_s_P0 :: "real \<Rightarrow> real \<Rightarrow> js_result" where
  "SW_ChemPot_s_P0 T S =
    (if T < 100 then Inr 0.101325 else then_do (SW_Psat T S) (\<lambda>p. Inr (p / 10 ^ 6)))"

text \<open>Lines 71--92: \<open>dg_ds = dg_ds_P0 + dg_ds_P\<close>.\<close>

definition SW_ChemPot_s_dg_ds :: "real \<Rightarrow> real \<Rightarrow> real \<Rightarrow> real \<Rightarrow> real" where
  "SW_ChemPot_s_dg_ds T S P P0 =
    (let b1 = - 2.4176 * 10 ^ 2;
         b2 = - 6.2462 / 10;
         b3 = 7.4761 / 10 ^ 3;
         b4 = 1.3836 / 10 ^ 3;
         b5 = - 6.7157 / 10 ^ 6;
         b6 = 5.1993 / 10 ^ 4;
         b7 = 9.9176 / 10 ^ 9;
         b8 = 6.6448 * 10;
         b9 = 2.0681 / 10;
         dg_ds_P0 = b1 + b2 * T + b3 * T ^ 2 +
                    2 * b4 * S * T + 2 * b5 * S * T ^ 2 +
                    3 * b6 * S ^ 2 + 3 * b7 * S ^ 2 * T ^ 2 +
                    b8 * (ln S + 1) + b9 * T * (ln S + 1);
         c5 = - 7.2431 / 10;
         c6 = 1.5712 / 10 ^ 3;
         c7 = - 1.8919 / 10 ^ 5;
         c8 = 2.5939 / 10 ^ 8;
         dg_ds_P = (P - P0) * (c5 + c6 * T + c7 * T ^ 2 + c8 * T ^ 3)
     in dg_ds_P0 + dg_ds_P)"

definition SW_ChemPot_s :: "real \<Rightarrow> real \<Rightarrow> real \<Rightarrow> js_result" where
  "SW_ChemPot_s T S P =
    (if T < 10 \<or> T > 80 then
       Inl (Error ''Temperature is out of range for the chemical potential of salt function 10 < T < 80 C'')
     else if S < 0.1 \<or> S > 120 then
       Inl (Error ''Salinity is out of range for the chemical potential of salt function 0.1 < S < 120 g/kg'')
     else then_do (SW_Psat T S) (\<lambda>p.
       let P_sat = p / 10 ^ 6 in
       if P < P_sat \<or> P > 12 then
         Inl (Error ''Pressure is out of range for the chemical potential of salt function P_sat < P < 12 MPa'')
       else then_do (SW_ChemPot_s_P0 T S) (\<lambda>P0.
         if P > P0 \<and> (S > 42 \<or> T > 40) then
           Inl (Error ''Salinity is out of range for the chemical potential of salt function 10 < T < 40 C; 0.1 < S < 42 g/kg; P_sat < P < 12 MPa'')
         else then_do (SW_Gibbs T S P) (\<lambda>g.
           Inr (g + (1000 - S) * SW_ChemPot_s_dg_ds T S P P0)))))"

text \<open>Lines 121--126: the reference pressure of \<open>SW_ChemPot_w\<close>.\<close>

definition SW_ChemPot_w_P0 :: "real \<Rightarrow> real \<Rightarrow> js_result" where
  "SW_ChemPot_w_P0 T S =
    (if T < 100 then Inr 0.101325 else then_do (SW_Psat T S) (\<lambda>p. Inr (p / 10 ^ 6)))"

text \<open>Lines 132--159: \<open>Sdg_dS\<close>, which is \<open>0\<close> unless \<open>S > 0\<close>.\<close>

definition SW_ChemPot_w_Sdg_dS :: "real \<Rightarrow> real \<Rightarrow> real \<Rightarrow> real \<Rightarrow> real" where
  "SW_ChemPot_w_Sdg_dS T S P P0 =
    (let b1 = - 2.4176 * 10 ^ 2;
         b2 = - 6.2462 / 10;
         b3 = 7.4761 / 10 ^ 3;
         b4 = 1.3836 / 10 ^ 3;
         b5 = - 6.7157 / 10 ^ 6;
         b6 = 5.1993 / 10 ^ 4;
         b7 = 9.9176 / 10 ^ 9;
         b8 = 6.6448 * 10;
         b9 = 2.0681 / 10
     in if S > 0 then
          (let dg_ds_P0 = b1 + b2 * T + b3 * T ^ 2 +
                          2 * b4 * S * T + 2 * b5 * S * T ^ 2 +
                          3 * b6 * S ^ 2 + 3 * b7 * S ^ 2 * T ^ 2 +
                          b8 * (ln S + 1) + b9 * T * (ln S + 1);
               c5 = - 7.2431 / 10;
               c6 = 1.5712 / 10 ^ 3;
               c7 = - 1.8919 / 10 ^ 5;
               c8 = 2.5939 / 10 ^ 8;
               dg_ds_P = (P - P0) * (c5 + c6 * T + c7 * T ^ 2 + c8 * T ^ 3);
               dg_ds = dg_ds_P0 + dg_ds_P
           in S * dg_ds)
        else 0)"

definition SW_ChemPot_w :: "real \<Rightarrow> real \<Rightarrow> real \<Rightarrow> js_result" where
  "SW_ChemPot_w T S P =
    (if T < 10 \<or> T > 80 then
       Inl (Error ''Temperature is out of range for the chemical potential of water function 10 < T < 80 C'')
     else if S < 0 \<or> S > 120 then
       Inl (Error ''Salinity is out of range for the chemical potential of water function 0 < S < 120 g/kg'')
     else then_do (SW_Psat T S) (\<lambda>p.
       let P_sat = p / 10 ^ 6 in
       if P < P_sat \<or> P > 12 then
         Inl (Error ''Pressure is out of range for the chemical potential of water function P_sat < P < 12 MPa'')
       else then_do (SW_ChemPot_w_P0 T S) (\<lambda>P0.
         if P > P0 \<and> (S > 42 \<or> T > 40) then
           Inl (Error ''Salinity is out of range for the chemical potential of water function 10 < T < 40 C; 0 < S < 42 g/kg; P_sat < P < 12 MPa'')
         else then_do (SW_Gibbs T S P) (\<lambda>g.
           Inr (g - SW_ChemPot_w_Sdg_dS T S P P0)))))"

subsection \<open>Thermal conductivity (\<open>SW_Conductivity\<close>, lines 171--186; \<open>SW_ConductivityP\<close>, lines 196--228)\<close>

definition SW_Conductivity_value :: "real \<Rightarrow> real \<Rightarrow> real" where
  "SW_Conductivity_value T S =
    (let T68 = 1.00024 * T;
         SP = S / 1.00472
     in 0.001 * 10 powr (log 10 (240 + 0.0002 * SP) + 0.434 *
          (2.3 - (343.5 + 0.037 * SP) / (T68 + 273.15)) *
          (1 - (T68 + 273.15) / (647.3 + 0.03 * SP)) powr (1 / 3)))"

definition SW_Conductivity :: "real \<Rightarrow> real \<Rightarrow> js_result" where
  "SW_Conductivity T S =
    (if T < 0 \<or> T > 180 then
       Inl (Error ''Temperature is out of range for thermal conductivity function 0 < T < 180 C'')
     else if S < 0 \<or> S > 160 then
       Inl (Error ''Salinity is out of range for thermal conductivity function 0 < S < 160 g/kg'')
     else Inr (SW_Conductivity_value T S))"



subsection \<open>Density (\<open>SW_Density\<close>, lines 238--302)\<close>

text \<open>Line 247: the reference pressure of \<open>SW_Density\<close>, resolved before the pressure check.\<close>

definition SW_Density_P0 :: "real \<Rightarrow> real \<Rightarrow> js_result" where
  "SW_Density_P0 T S =
    (if T < 100 then Inr 0.101325 else then_do (SW_Psat T S) (\<lambda>p. Inr (p / 10 ^ 6)))"

text \<open>
  Lines 254--301: \<open>rho_sw_sharq * F_P\<close>. The constant \<open>kT\<close> of lines 290--293 is
  computed and never used, so it is not part of the value.
\<close>

definition SW_Density_value :: "real \<Rightarrow> real \<Rightarrow> real \<Rightarrow> real \<Rightarrow> real" where
  "SW_Density_value T S P P0 =
    (let S_kgkg = S / 1000;
         a1 = 9.9992293295 * 10 ^ 2;
         a2 = 2.0341179217 / 10 ^ 2;
         a3 = - 6.1624591598 / 10 ^ 3;
         a4 = 2.2614664708 / 10 ^ 5;
         a5 = - 4.6570659168 / 10 ^ 8;
         b1 = 8.0200240891 * 10 ^ 2;
         b2 = - 2.0005183488;
         b3 = 1.6771024982 / 10 ^ 2;
         b4 = - 3.0600536746 / 10 ^ 5;
         b5 = - 1.6132224742 / 10 ^ 5;
         rho_w = a1 + a2 * T + a3 * T ^ 2 + a4 * T ^ 3 + a5 * T ^ 4;
         D_rho = b1 * S_kgkg + b2 * S_kgkg * T + b3 * S_kgkg * T ^ 2 +
                 b4 * S_kgkg * T ^ 3 + b5 * S_kgkg ^ 2 * T ^ 2;
         rho_sw_sharq = rho_w + D_rho;
         c1 = 5.0792 / 10 ^ 4;
         c2 = - 3.4168 / 10 ^ 6;
         c3 = 5.6931 / 10 ^ 8;
         c4 = - 3.7263 / 10 ^ 10;
         c5 = 1.4465 / 10 ^ 12;
         c6 = - 1.7058 / 10 ^ 15;
         c7 = - 1.3389 / 10 ^ 6;
         c8 = 4.8603 / 10 ^ 9;
         c9 = - 6.8039 / 10 ^ 13;
         d1 = - 1.1077 / 10 ^ 6;
         d2 = 5.5584 / 10 ^ 9;
         d3 = - 4.2539 / 10 ^ 11;
         d4 = 8.3702 / 10 ^ 9;
         F_P = exp ((P - P0) * (c1 + c2 * T + c3 * T ^ 2 +
                    c4 * T ^ 3 + c5 * T ^ 4 + c6 * T ^ 5 +
                    S * (d1 + d2 * T + d3 * T ^ 2)) +
                    0.5 * (P ^ 2 - P0 ^ 2) *
                    (c7 + c8 * T + c9 * T ^ 3 + d4 * S))
     in rho_sw_sharq * F_P)"

definition SW_Density :: "real \<Rightarrow> real \<Rightarrow> real \<Rightarrow> js_result" where
  "SW_Density T S P =
    (if T < 0 \<or> T > 180 then
       Inl (Error ''Temperature is out of range for density function 0 < T < 180 C'')
     else if S < 0 \<or> S > 150 then
       Inl (Error ''Salinity is out of range for density function 0 < S < 150 g/kg'')
     else then_do (SW_Density_P0 T S) (\<lambda>P0.
       then_do (SW_Psat T S) (\<lambda>p.
         let P_sat = p / 10 ^ 6 in
         if P < P_sat \<or> P > 12 then
           Inl (Error ''Pressure is out of range for density function P_sat < P < 12 MPa'')
         else Inr (SW_Density_value T S P P0))))"

subsection \<open>Specific heat capacity (\<open>SW_SpcHeat\<close>, lines 935--978)\<close>

text \<open>Line 950: the reference pressure of \<open>SW_SpcHeat\<close>.\<close>

definition SW_SpcHeat_P0 :: "real \<Rightarrow> real \<Rightarrow> js_result" where
  "SW_SpcHeat_P0 T S =
    (if T < 100 then Inr 0.101325 else then_do (SW_Psat T S) (\<lambda>p. Inr (p / 10 ^ 6)))"

definition SW_SpcHeat_value :: "real \<Rightarrow> real \<Rightarrow> real \<Rightarrow> real \<Rightarrow> real" where
  "SW_SpcHeat_value T S P P0 =
    (let T68 = 1.00024 * T;
         SP = S / 1.00472;
         A = 5.328 - 9.76 / 10 ^ 2 * SP + 4.04 / 10 ^ 4 * SP ^ 2;
         B = - 6.913 / 10 ^ 3 + 7.351 / 10 ^ 4 * SP - 3.15 / 10 ^ 6 * SP ^ 2;
         C = 9.6 / 10 ^ 6 - 1.927 / 10 ^ 6 * SP + 8.23 / 10 ^ 9 * SP ^ 2;
         D = 2.5 / 10 ^ 9 + 1.666 / 10 ^ 9 * SP - 7.125 / 10 ^ 12 * SP ^ 2;
         cp_sw_P0 = 1000 * (A + B * T68 + C * T68 ^ 2 + D * T68 ^ 3);
         c1 = - 3.1118;
         c2 = 0.0157;
         c3 = 5.1014 / 10 ^ 5;
         c4 = - 1.0302 / 10 ^ 6;
         c5 = 0.0107;
         c6 = - 3.9716 / 10 ^ 5;
         c7 = 3.2088 / 10 ^ 8;
         c8 = 1.0119 / 10 ^ 9;
         cp_sw_P = (P - P0) * (c1 + c2 * T + c3 * T ^ 2 + c4 * T ^ 3 +
                   S * (c5 + c6 * T + c7 * T ^ 2 + c8 * T ^ 3))
     in cp_sw_P0 + cp_sw_P)"

definition SW_SpcHeat :: "real \<Rightarrow> real \<Rightarrow> real \<Rightarrow> js_result" where
  "SW_SpcHeat T S P =
    (if T < 0 \<or> T > 180 then
       Inl (Error ''Temperature is out of range for specific heat capacity function 0 < T < 180 C'')
     else if S < 0 \<or> S > 180 then
       Inl (Error ''Salinity is out of range for specific heat capacity function 0 < S < 180 g/kg'')
     else then_do (SW_Psat T S) (\<lambda>p.
       let P_sat = p / 10 ^ 6 in
       if P < P_sat \<or> P > 12 then
         Inl (Error ''Pressure is out of range for specific heat capacity function P_sat < P < 12 MPa'')
       else then_do (SW_SpcHeat_P0 T S) (\<lambda>P0.
         Inr (SW_SpcHeat_value T S P P0))))"

subsection \<open>Dynamic viscosity (\<open>SW_Viscosity\<close>, lines 1010--1041)\<close>

definition SW_Viscosity_value :: "real \<Rightarrow> real \<Rightarrow> real" where
  "SW_Viscosity_value T S =
    (let S_kgkg = S / 1000;
         a1 = 0.15700386464;
         a2 = 64.99262005;
         a3 = - 91.296496657;
         a4 = 0.000042844324477;
         mu_w = a4 + 1 / (a1 * (T + a2) ^ 2 + a3);
         a5 = 1.540913604;
         a6 = 0.019981117208;
         a7 = - 0.000095203865864;
         a8 = 7.9739318223;
         a9 = - 0.075614568881;
         a10 = 0.00047237011074;
         A = a5 + a6 * T + a7 * T ^ 2;
         B = a8 + a9 * T + a10 * T ^ 2
     in mu_w * (1 + A * S_kgkg + B * S_kgkg ^ 2))"

definition SW_Viscosity :: "real \<Rightarrow> real \<Rightarrow> js_result" where
  "SW_Viscosity T S =
    (if T < 0 \<or> T > 180 then
       Inl (Error ''Temperature is out of range for viscosity function 0 < T < 180 C'')
     else if S < 0 \<or> S > 150 then
       Inl (Error ''Salinity is out of range for viscosity function 0 < S < 150 g/kg'')
     else Inr (SW_Viscosity_value T S))"

subsection \<open>Thermal diffusivity (\<open>SW_Diffusivity\<close>, lines 311--326)\<close>

text \<open>Line 320: the reference pressure of \<open>SW_Diffusivity\<close>.\<close>

definition SW_Diffusivity_P0 :: "real \<Rightarrow> real \<Rightarrow> js_result" where
  "SW_Diffusivity_P0 T S =
    (if T < 100 then Inr 0.101325 else then_do (SW_Psat T S) (\<lambda>p. Inr (p / 10 ^ 6)))"

definition SW_Diffusivity :: "real \<Rightarrow> real \<Rightarrow> js_result" where
  "SW_Diffusivity T S =
    (if T < 0 \<or> T > 180 then
       Inl (Error ''Temperature is out of range for diffusivity function 0 < T < 180 C'')
     else if S < 0 \<or> S > 150 then
       Inl (Error ''Salinity is out of range for diffusivity function 0 < S < 150 g/kg'')
     else then_do (SW_Diffusivity_P0 T S) (\<lambda>P0.
       then_do (SW_Density T S P0) (\<lambda>rho.
       then_do (SW_SpcHeat T S P0) (\<lambda>cp.
       then_do (SW_Conductivity T S) (\<lambda>K.
         Inr (K / (rho * cp)))))))"

subsection \<open>Specific enthalpy (\<open>SW_Enthalpy\<close>, lines 336--385)\<close>

text \<open>Line 351: the reference pressure of \<open>SW_Enthalpy\<close>.\<close>

definition SW_Enthalpy_P0 :: "real \<Rightarrow> real \<Rightarrow> js_result" where
  "SW_Enthalpy_P0 T S =
    (if T < 100 then Inr 0.101325 else then_do (SW_Psat T S) (\<lambda>p. Inr (p / 10 ^ 6)))"

definition SW_Enthalpy_value :: "real \<Rightarrow> real \<Rightarrow> real \<Rightarrow> real \<Rightarrow> real" where
  "SW_Enthalpy_value T S P P0 =
    (let S_kgkg = S / 1000;
         h_w = 141.355 + 4202.07 * T - 0.535 * T ^ 2 + 0.004 * T ^ 3;
         b1 = - 2.34825 * 10 ^ 4;
         b2 = 3.15183 * 10 ^ 5;
         b3 = 2.80269 * 10 ^ 6;
         b4 = - 1.44606 * 10 ^ 7;
         b5 = 7.82607 * 10 ^ 3;
         b6 = - 4.41733 * 10;
         b7 = 2.1394 / 10;
         b8 = - 1.99108 * 10 ^ 4;
         b9 = 2.77846 * 10 ^ 4;
         b10 = 9.72801 * 10;
         c1 = 996.7767;
         c2 = - 3.2406;
         c3 = 0.0127;
         c4 = - 4.7723 / 10 ^ 5;
         c5 = - 1.1748;
         c6 = 0.01169;
         c7 = - 2.6185 / 10 ^ 5;
         c8 = 7.0661 / 10 ^ 8;
         h_sw_P = (P - P0) * (c1 + c2 * T + c3 * T ^ 2 + c4 * T ^ 3 +
                  S * (c5 + c6 * T + c7 * T ^ 2 + c8 * T ^ 3))
     in h_w - S_kgkg * (b1 + b2 * S_kgkg + b3 * S_kgkg ^ 2 + b4 * S_kgkg ^ 3 +
          b5 * T + b6 * T ^ 2 + b7 * T ^ 3 + b8 * S_kgkg * T +
          b9 * S_kgkg ^ 2 * T + b10 * S_kgkg * T ^ 2) + h_sw_P)"

definition SW_Enthalpy :: "real \<Rightarrow> real \<Rightarrow> real \<Rightarrow> js_result" where
  "SW_Enthalpy T S P =
    (if T < 10 \<or> T > 120 then
       Inl (Error ''Temperature is out of range for enthalpy function 10 < T < 120 C'')
     else if S < 0 \<or> S > 120 then
       Inl (Error ''Salinity is out of range for enthalpy function 0 < S < 120 g/kg'')
     else then_do (SW_Psat T S) (\<lambda>p.
       let P_sat = p / 10 ^ 6 in
       if P < P_sat \<or> P > 12 then
         Inl (Error ''Pressure is out of range for enthalpy function P_sat < P < 12 MPa'')
       else then_do (SW_Enthalpy_P0 T S) (\<lambda>P0.
         Inr (SW_Enthalpy_value T S P P0))))"

subsection \<open>Specific entropy (\<open>SW_Entropy\<close>, lines 395--450)\<close>

text \<open>Line 410: the reference pressure of \<open>SW_Entropy\<close>.\<close>

definition SW_Entropy_P0 :: "real \<Rightarrow> real \<Rightarrow> js_result" where
  "SW_Entropy_P0 T S =
    (if T < 100 then Inr 0.101325 else then_do (SW_Psat T S) (\<lambda>p. Inr (p / 10 ^ 6)))"

definition SW_Entropy_value :: "real \<Rightarrow> real \<Rightarrow> real \<Rightarrow> real \<Rightarrow> real" where
  "SW_Entropy_value T S P P0 =
    (let S_kgkg = S / 1000;
         a1 = 1.543226508 / 10;
         a2 = 1.5382700241 * 10;
         a3 = - 2.9963211781 / 10 ^ 2;
         a4 = 8.1929151062 / 10 ^ 5;
         a5 = - 1.3699640311 / 10 ^ 7;
         s_w = a1 + a2 * T + a3 * T ^ 2 + a4 * T ^ 3 + a5 * T ^ 4;
         b1 = - 4.2307343871 * 10 ^ 2;
         b2 = 1.4630334922 * 10 ^ 4;
         b3 = - 9.8796297642 * 10 ^ 4;
         b4 = 3.0946224962 * 10 ^ 5;
         b5 = 2.5623880831 * 10;
         b6 = - 1.4432346624 / 10;
         b7 = 5.8790568541 / 10 ^ 4;
         b8 = - 6.110676427 * 10;
         b9 = 8.0408001971 * 10;
         b10 = 3.0354282687 / 10;
         c1 = - 4.4786 / 10 ^ 3;
         c2 = - 1.1654 / 10 ^ 2;
         c3 = 6.1154 / 10 ^ 5;
         c4 = - 2.0696 / 10 ^ 7;
         c5 = - 1.5531 / 10 ^ 3;
         c6 = 4.0054 / 10 ^ 5;
         c7 = - 1.4193 / 10 ^ 7;
         c8 = 3.3142 / 10 ^ 10;
         s_sw_P = (P - P0) * (c1 + c2 * T + c3 * T ^ 2 + c4 * T ^ 3 +
                  S * (c5 + c6 * T + c7 * T ^ 2 + c8 * T ^ 3))
     in s_w - S_kgkg * (b1 + b2 * S_kgkg + b3 * S_kgkg ^ 2 + b4 * S_kgkg ^ 3 +
          b5 * T + b6 * T ^ 2 + b7 * T ^ 3 + b8 * S_kgkg * T +
          b9 * S_kgkg ^ 2 * T + b10 * S_kgkg * T ^ 2) + s_sw_P)"

definition SW_Entropy :: "real \<Rightarrow> real \<Rightarrow> real \<Rightarrow> js_result" where
  "SW_Entropy T S P =
    (if T < 10 \<or> T > 120 then
       Inl (Error ''Temperature is out of range for entropy function 10 < T < 120 C'')
     else if S < 0 \<or> S > 120 then
       Inl (Error ''Salinity is out of range for entropy function 0 < S < 120 g/kg'')
     else then_do (SW_Psat T S) (\<lambda>p.
       let P_sat = p / 10 ^ 6 in
       if P < P_sat \<or> P > 12 then
         Inl (Error ''Pressure is out of range for entropy function P_sat < P < 12 MPa'')
       else then_do (SW_Entropy_P0 T S) (\<lambda>P0.
         Inr (SW_Entropy_value T S P P0))))"

subsection \<open>Specific flow exergy (\<open>SW_FlowExergy\<close>, lines 463--503)\<close>

text \<open>
  \<open>SW_FlowExergy\<close> calls \<open>SW_SChemPot_s\<close> three times (lines 494, 498, 499). No
  function, variable or import of that name exists in the file, so evaluating the
  identifier throws a \<open>ReferenceError\<close> whatever the arguments are.
\<close>

definition SW_SChemPot_s :: "real \<Rightarrow> real \<Rightarrow> real \<Rightarrow> js_result" where
  "SW_SChemPot_s T S P = Inl (ReferenceError ''SW_SChemPot_s is not defined'')"

text \<open>Lines 501--502: the returned combination of the ten intermediate values.\<close>

definition SW_FlowExergy_value ::
    "real \<Rightarrow> real \<Rightarrow> real \<Rightarrow> real \<Rightarrow> real \<Rightarrow> real \<Rightarrow> real \<Rightarrow> real \<Rightarrow> real \<Rightarrow> real \<Rightarrow> real" where
  "SW_FlowExergy_value S T0 h_sw s_sw h_sw_star s_sw_star mu_w_star Smu_s_star mu_w_0 Smu_s_0 =
     (h_sw - h_sw_star) - (T0 + 273.15) * (s_sw - s_sw_star) +
     (1 - 0.001 * S) * (mu_w_star - mu_w_0) + 0.001 * (Smu_s_star - Smu_s_0)"

text \<open>
  The dead-state arguments \<open>T0\<close>, \<open>S0\<close>, \<open>P0\<close> are optional: \<open>None\<close> is an argument
  that was not supplied. Lines 479--481 replace each by \<open>x || default\<close>.
\<close>

definition SW_FlowExergy ::
    "real \<Rightarrow> real \<Rightarrow> real \<Rightarrow> real option \<Rightarrow> real option \<Rightarrow> real option \<Rightarrow> js_result" where
  "SW_FlowExergy T S P T0_arg S0_arg P0_arg =
    (if T < 10 \<or> T > 80 then
       Inl (Error ''Temperature is out of range for flow exergy function 10 < T < 80 C'')
     else if S < 0 \<or> S > 120 then
       Inl (Error ''Salinity is out of range for flow exergy function 0 < S < 120 g/kg'')
     else then_do (SW_Psat T S) (\<lambda>p.
       let P_sat = p / 10 ^ 6 in
       if P < P_sat \<or> P > 12 then
         Inl (Error ''Pressure is out of range for flow exergy function P_sat < P < 12 MPa'')
       else
         let T0 = js_or T0_arg 25;
             S0 = js_or S0_arg 35;
             P0 = js_or P0_arg 0.101325
         in if S0 < 0.1 then
              Inl (Error ''Reference salinity is out of allowed range for flow exergy function 0.1 < S0 < 120'')
            else
              then_do (SW_Enthalpy T S P) (\<lambda>h_sw.
              then_do (SW_Entropy T S P) (\<lambda>s_sw.
              then_do (SW_Enthalpy T0 S P0) (\<lambda>h_sw_star.
              then_do (SW_Entropy T0 S P0) (\<lambda>s_sw_star.
              then_do (SW_ChemPot_w T0 S P0) (\<lambda>mu_w_star.
              then_do (SW_SChemPot_s T0 S P0) (\<lambda>Smu_s_star.
              then_do (SW_ChemPot_w T0 S0 P0) (\<lambda>mu_w_0.
              then_do (SW_SChemPot_s T0 S0 P0) (\<lambda>S0mu_s_0.
              then_do (SW_SChemPot_s T0 S0 P0) (\<lambda>v.
                let Smu_s_0 = v * (S / S0)
                in Inr (SW_FlowExergy_value S T0 h_sw s_sw h_sw_star s_sw_star
                          mu_w_star Smu_s_star mu_w_0 Smu_s_0))))))))))))"

subsection \<open>Specific internal energy (\<open>SW_IntEnergy\<close>, lines 582--599)\<close>


subsection \<open>Isobaric expansivity (\<open>SW_IsobExp\<close>, lines 609--683)\<close>

text \<open>Line 624: the reference pressure of \<open>SW_IsobExp\<close>.\<close>

definition SW_IsobExp_P0 :: "real \<Rightarrow> real \<Rightarrow> js_result" where
  "SW_IsobExp_P0 T S =
    (if T < 100 then Inr 0.101325 else then_do (SW_Psat T S) (\<lambda>p. Inr (p / 10 ^ 6)))"

definition SW_IsobExp_value :: "real \<Rightarrow> real \<Rightarrow> real \<Rightarrow> real \<Rightarrow> real" where
  "SW_IsobExp_value T S P P0 =
    (let S_kgkg = S / 1000;
         a1 = 9.9992293295 * 10 ^ 2;
         a2 = 2.0341179217 / 10 ^ 2;
         a3 = - 6.1624591598 / 10 ^ 3;
         a4 = 2.2614664708 / 10 ^ 5;
         a5 = - 4.6570659168 / 10 ^ 8;
         b1 = 8.0200240891 * 10 ^ 2;
         b2 = - 2.0005183488;
         b3 = 1.6771024982 / 10 ^ 2;
         b4 = - 3.0600536746 / 10 ^ 5;
         b5 = - 1.6132224742 / 10 ^ 5;
         drho_wdT = a2 + 2 * a3 * T + 3 * a4 * T ^ 2 + 4 * a5 * T ^ 3;
         dD_rhodT = b2 * S_kgkg + 2 * b3 * S_kgkg * T + 3 * b4 * S_kgkg * T ^ 2 +
                    2 * b5 * S_kgkg ^ 2 * T;
         rho_w = a1 + a2 * T + a3 * T ^ 2 + a4 * T ^ 3 + a5 * T ^ 4;
         D_rho = b1 * S_kgkg + b2 * S_kgkg * T + b3 * S_kgkg * T ^ 2 +
                 b4 * S_kgkg * T ^ 3 + b5 * S_kgkg ^ 2 * T ^ 2;
         rho_sw_sharq = rho_w + D_rho;
         drho_sw_sharqdT = drho_wdT + dD_rhodT;
         c1 = 5.0792 / 10 ^ 4;
         c2 = - 3.4168 / 10 ^ 6;
         c3 = 5.6931 / 10 ^ 8;
         c4 = - 3.7263 / 10 ^ 10;
         c5 = 1.4465 / 10 ^ 12;
         c6 = - 1.7058 / 10 ^ 15;
         c7 = - 1.3389 / 10 ^ 6;
         c8 = 4.8603 / 10 ^ 9;
         c9 = - 6.8039 / 10 ^ 13;
         d1 = - 1.1077 / 10 ^ 6;
         d2 = 5.5584 / 10 ^ 9;
         d3 = - 4.2539 / 10 ^ 11;
         d4 = 8.3702 / 10 ^ 9;
         F_P = exp ((P - P0) * (c1 + c2 * T + c3 * T ^ 2 +
                    c4 * T ^ 3 + c5 * T ^ 4 + c6 * T ^ 5 +
                    S * (d1 + d2 * T + d3 * T ^ 2)) +
                    0.5 * (P ^ 2 - P0 ^ 2) *
                    (c7 + c8 * T + c9 * T ^ 3 + d4 * S));
         dF_PdT = F_P * ((P - P0) * (c2 + 2 * c3 * T + 3 * c4 * T ^ 2 +
                    4 * c5 * T ^ 3 + 5 * c6 * T ^ 4 +
                    S * (d2 + 2 * d3 * T)) +
                    0.5 * (P ^ 2 - P0 ^ 2) *
                    (c8 + 3 * c9 * T ^ 2));
         rho = rho_sw_sharq * F_P;
         drho_dT = drho_sw_sharqdT * F_P + rho_sw_sharq * dF_PdT
     in - drho_dT / rho)"

definition SW_IsobExp :: "real \<Rightarrow> real \<Rightarrow> real \<Rightarrow> js_result" where
  "SW_IsobExp T S P =
    (if T < 0 \<or> T > 180 then
       Inl (Error ''Temperature is out of range for isobaric expansivity function 0 < T < 180 C'')
     else if S < 0 \<or> S > 150 then
       Inl (Error ''Salinity is out of range for isobaric expansivity function 0 < S < 150 g/kg'')
     else then_do (SW_Psat T S) (\<lambda>p.
       let P_sat = p / 10 ^ 6 in
       if P < P_sat \<or> P > 12 then
         Inl (Error ''Pressure is out of range for isobaric expansivity function P_sat < P < 12 MPa'')
       else then_do (SW_IsobExp_P0 T S) (\<lambda>P0.
         Inr (SW_IsobExp_value T S P P0))))"

subsection \<open>Isothermal compressibility (\<open>SW_IsothComp\<close>, lines 693--726)\<close>



subsection \<open>Kinematic viscosity (\<open>SW_Kviscosity\<close>, lines 735--749)\<close>

text \<open>Line 744: the reference pressure of \<open>SW_Kviscosity\<close>, written with \<open>T >= 100\<close> first.\<close>

definition SW_Kviscosity_P0 :: "real \<Rightarrow> real \<Rightarrow> js_result" where
  "SW_Kviscosity_P0 T S =
    (if T \<ge> 100 then then_do (SW_Psat T S) (\<lambda>p. Inr (p / 10 ^ 6)) else Inr 0.101325)"

definition SW_Kviscosity :: "real \<Rightarrow> real \<Rightarrow> js_result" where
  "SW_Kviscosity T S =
    (if T < 0 \<or> T > 180 then
       Inl (Error ''Temperature is out of range for kinematic viscosity function 0 < T < 180 C'')
     else if S < 0 \<or> S > 150 then
       Inl (Error ''Salinity is out of range for kinematic viscosity function 0 < S < 150 g/kg'')
     else then_do (SW_Kviscosity_P0 T S) (\<lambda>P0.
       then_do (SW_Density T S P0) (\<lambda>rho.
       then_do (SW_Viscosity T S) (\<lambda>mu.
         Inr (mu / rho)))))"

subsection \<open>Latent heat of vaporization (\<open>SW_LatentHeat\<close>, lines 758--775)\<close>



subsection \<open>Osmotic coefficient (\<open>SW_OsmCoeff\<close>, lines 784--835)\<close>

text \<open>Lines 830--833: the branch \<open>S > 10\<close>, the correlation polynomial at \<open>(T, S)\<close>.\<close>

definition SW_OsmCoeff_direct :: "real \<Rightarrow> real \<Rightarrow> real" where
  "SW_OsmCoeff_direct T S =
    (let a1 = 0.89453233003;
         a2 = 0.00041560737424;
         a3 = - 0.0000046262121398;
         a4 = 0.000000000022211195897;
         a5 = - 0.00011445456438;
         a6 = - 0.0000014783462366;
         a7 = - 0.000000000013526263499;
         a8 = 0.0000070132355546;
         a9 = 0.000000056960486681;
         a10 = - 0.00000000028624032584
     in a1 + a2 * T + a3 * T ^ 2 + a4 * T ^ 4 +
        a5 * S + a6 * T * S + a7 * S * T ^ 3 +
        a8 * S ^ 2 + a9 * S ^ 2 * T +
        a10 * S ^ 2 * T ^ 2)"

text \<open>
  Lines 806--828: the branch \<open>S \<le> 10\<close>, the Pitzer--Bronsted form
  \<open>1 - beta * sqrt m + lambda * m\<close> with \<open>beta\<close> and \<open>lambda\<close> computed from the
  correlation polynomial and its \<open>S\<close>-derivative at \<open>S_eq = 10\<close>.
\<close>

definition SW_OsmCoeff_anchor :: "real \<Rightarrow> real \<Rightarrow> real" where
  "SW_OsmCoeff_anchor T S =
    (let a1 = 0.89453233003;
         a2 = 0.00041560737424;
         a3 = - 0.0000046262121398;
         a4 = 0.000000000022211195897;
         a5 = - 0.00011445456438;
         a6 = - 0.0000014783462366;
         a7 = - 0.000000000013526263499;
         a8 = 0.0000070132355546;
         a9 = 0.000000056960486681;
         a10 = - 0.00000000028624032584;
         MW_s = 31.4038218;
         S_eq = 10;
         Phi_corr_eq = a1 + a2 * T + a3 * T ^ 2 + a4 * T ^ 4 +
                       a5 * S_eq + a6 * T * S_eq + a7 * S_eq * T ^ 3 +
                       a8 * S_eq ^ 2 + a9 * S_eq ^ 2 * T +
                       a10 * S_eq ^ 2 * T ^ 2;
         dPhi_corr_eq = a5 + a6 * T + a7 * T ^ 3 +
                        2 * a8 * S_eq + 2 * a9 * S_eq * T +
                        2 * a10 * S_eq * T ^ 2;
         m_sum_eq = S_eq / (1000 - S_eq) * (1000 / MW_s);
         dmds_eq = (1000 / MW_s) * (1 / (1000 - S_eq) + S_eq / (1000 - S_eq) ^ 2);
         beta = - 2 * (m_sum_eq powr (- 0.5) * (Phi_corr_eq - 1) -
                  dPhi_corr_eq * m_sum_eq powr 0.5 / dmds_eq);
         lambda = (Phi_corr_eq + beta * m_sum_eq powr 0.5 - 1) / m_sum_eq;
         m_sum = S / (1000 - S) * (1000 / MW_s)
     in 1 - beta * m_sum powr 0.5 + lambda * m_sum)"

definition SW_OsmCoeff :: "real \<Rightarrow> real \<Rightarrow> js_result" where
  "SW_OsmCoeff T S =
    (if T < 0 \<or> T > 120 then
       Inl (Error ''Temperature is out of range for osmotic coefficient function 0 < T < 120 C'')
     else if S < 0 \<or> S > 120 then
       Inl (Error ''Salinity is out of range for osmotic coefficient function 0 < S < 120 g/kg'')
     else if S \<le> 10 then Inr (SW_OsmCoeff_anchor T S)
     else Inr (SW_OsmCoeff_direct T S))"

subsection \<open>Osmotic pressure (\<open>SW_OsmPress\<close>, lines 844--865)\<close>

text \<open>
  Line 860: the reference pressure of \<open>SW_OsmPress\<close>. The source passes the literal
  \<open>0\<close> as salinity to \<open>SW_Psat\<close>; the argument \<open>S\<close> does not occur in the line.
\<close>

definition SW_OsmPress_P0 :: "real \<Rightarrow> real \<Rightarrow> js_result" where
  "SW_OsmPress_P0 T S =
    (if T < 100 then Inr 0.101325 else then_do (SW_Psat T 0) (\<lambda>p. Inr (p / 10 ^ 6)))"

definition SW_OsmPress :: "real \<Rightarrow> real \<Rightarrow> js_result" where
  "SW_OsmPress T S =
    (if T < 0 \<or> T > 120 then
       Inl (Error ''Temperature is out of range for osmotic pressure function 0 < T < 120 C'')
     else if S < 0 \<or> S > 120 then
       Inl (Error ''Salinity is out of range for osmotic pressure function 0 < S < 120 g/kg'')
     else then_do (SW_OsmCoeff T S) (\<lambda>Phi.
       let T_K = T + 273.15;
           Mw_sw = 31.4038218;
           R = 8.3144598;
           m_sum = 1000 * S / ((1000 - S) * Mw_sw)
       in then_do (SW_OsmPress_P0 T S) (\<lambda>P0.
          then_do (SW_Density T 0 P0) (\<lambda>rho_w_kgm3.
            let Pi = Phi * m_sum * R * T_K * rho_w_kgm3
            in Inr (Pi / 10 ^ 6)))))"

subsection \<open>Prandtl number (\<open>SW_Prandtl\<close>, lines 910--925)\<close>

text \<open>Line 919: the reference pressure of \<open>SW_Prandtl\<close>.\<close>

definition SW_Prandtl_P0 :: "real \<Rightarrow> real \<Rightarrow> js_result" where
  "SW_Prandtl_P0 T S =
    (if T < 100 then Inr 0.101325 else then_do (SW_Psat T S) (\<lambda>p. Inr (p / 10 ^ 6)))"

definition SW_Prandtl :: "real \<Rightarrow> real \<Rightarrow> js_result" where
  "SW_Prandtl T S =
    (if T < 0 \<or> T > 180 then
       Inl (Error ''Temperature is out of range for Prandtl function 0 < T < 180 C'')
     else if S < 0 \<or> S > 150 then
       Inl (Error ''Salinity is out of range for Prandtl function 0 < S < 150 g/kg'')
     else then_do (SW_Prandtl_P0 T S) (\<lambda>P0.
       then_do (SW_SpcHeat T S P0) (\<lambda>cp.
       then_do (SW_Viscosity T S) (\<lambda>mu.
       then_do (SW_Conductivity T S) (\<lambda>K.
         Inr (cp * mu / K))))))"

subsection \<open>Surface tension (\<open>SW_SurfaceTension\<close>, lines 987--1001)\<close>



subsection \<open>Specific volume (\<open>SW_Volume\<close>, lines 1051--1062)\<close>

definition SW_Volume :: "real \<Rightarrow> real \<Rightarrow> real \<Rightarrow> js_result" where
  "SW_Volume T S P =
    (if T < 0 \<or> T > 180 then
       Inl (Error ''Temperature is out of range for specific volume function 0 < T < 180 C'')
     else if S < 0 \<or> S > 150 then
       Inl (Error ''Salinity is out of range for specific volume function 0 < S < 150 g/kg'')
     else then_do (SW_Density T S P) (\<lambda>rho. Inr (1 / rho)))"

subsection \<open>The reference-pressure rule as the specification words it\<close>

text \<open>
  The specification describes one resolver, \<open>resolvePressureReference(T, S)\<close>:
  0.101325 MPa if \<open>T < 100\<close>, else the saturation pressure at \<open>(T, S)\<close> converted
  from Pa to MPa. The source has no such function; each property function writes its
  own line, modelled above as \<open>SW_Density_P0\<close>, \<open>SW_Gibbs_P0\<close> and so on. This
  definition follows the specification, for comparison with those.
\<close>

definition resolvePressureReference :: "real \<Rightarrow> real \<Rightarrow> js_result" where
  "resolvePressureReference T S =
    (if T < 100 then Inr 0.101325
     else case SW_Psat T S of Inl e \<Rightarrow> Inl e | Inr p \<Rightarrow> Inr (p / 10 ^ 6))"

subsection \<open>What a failure carries\<close>

text \<open>
  Every \<open>throw\<close> of the file is \<open>new Error(msg)\<close> with a string literal \<open>msg\<close>.
  All but one literal read \<open>V is out of range for F B\<close>, with \<open>V\<close> one of
  \<open>Temperature\<close>, \<open>Salinity\<close>, \<open>Pressure\<close>, \<open>F\<close> the words that name the
  function and \<open>B\<close> the bounds as text; \<open>range_text\<close> builds the literal from the
  three parts. For each public function, \<open>SW_..._errors\<close> lists the parts of the
  literals of its own guards, in source order, followed by the lists of the functions
  it calls.
\<close>

fun range_text :: "string \<times> string \<times> string \<Rightarrow> string" where
  "range_text (variable, subject, bounds) =
     variable @ '' is out of range for '' @ subject @ '' '' @ bounds"

























text \<open>
  Line 484: the one literal of another shape, thrown by \<open>SW_FlowExergy\<close> for the
  dead-state salinity.
\<close>

definition reference_salinity_text :: string where
  "reference_salinity_text =
     ''Reference salinity is out of allowed range for flow exergy function 0.1 < S0 < 120''"

text \<open>
  \<open>fails_only_from table r\<close>: the result \<open>r\<close> is a value, or an \<open>Error\<close> whose
  message is the text of an entry of \<open>table\<close>; it is not a \<open>ReferenceError\<close>.
  \<open>Errors_only_from table r\<close> constrains only the results that are an \<open>Error\<close>:
  the message is the text of an entry of \<open>table\<close> or the reference-salinity text.
\<close>

definition fails_only_from :: "(string \<times> string \<times> string) list \<Rightarrow> js_result \<Rightarrow> bool" where
  "fails_only_from table r =
     (case r of
        Inl (Error m) \<Rightarrow> m \<in> set (map range_text table)
      | Inl (ReferenceError m) \<Rightarrow> False
      | Inr v \<Rightarrow> True)"

definition Errors_only_from :: "(string \<times> string \<times> string) list \<Rightarrow> js_result \<Rightarrow> bool" where
  "Errors_only_from table r =
     (case r of
        Inl (Error m) \<Rightarrow> m \<in> set (map range_text table) \<or> m = reference_salinity_text
      | Inl (ReferenceError m) \<Rightarrow> True
      | Inr v \<Rightarrow> True)"

section \<open>Helper facts\<close>

subsection \<open>Sequencing\<close>

lemma then_do_Inr [simp]: "then_do (Inr v) k = k v"
  by (simp add: then_do_def)

lemma then_do_Inl [simp]: "then_do (Inl e) k = Inl e"
  by (simp add: then_do_def)

subsection \<open>Upper bounds on the vapor pressure at 25 C and 50 C\<close>

text \<open>
  The pressure guards compare \<open>P\<close> with \<open>SW_Psat T S / 1e6\<close>, an exponential of a
  logarithm. To evaluate a guard at a concrete state the exponent is bounded from
  \<open>1.105 \<le> exp (1/10)\<close> and \<open>exp 1 \<le> 3\<close>: at 25 C and at 50 C the pure-water
  vapor pressure is below one atmosphere (101325 Pa), and salinity only lowers it.
\<close>

lemma exp_tenth_lower: "(1.105::real) \<le> exp (1 / 10)"
  using exp_lower_Taylor_quadratic [of "1 / 10 :: real"] by (simp add: power2_eq_square)

lemma exp_58_tenths_lower: "(323.15::real) \<le> exp 5.8"
proof -
  have "exp (5.8::real) = exp (of_nat 58 * (1 / 10))" by simp
  also have "\<dots> = exp (1 / 10) ^ 58" by (rule exp_of_nat_mult)
  finally have e: "exp (5.8::real) = exp (1 / 10) ^ 58" .
  have "(323.15::real) \<le> 1.105 ^ 58" by (simp add: power_divide)
  also have "\<dots> \<le> exp (1 / 10) ^ 58" by (rule power_mono [OF exp_tenth_lower]) simp
  finally show ?thesis using e by simp
qed

lemma ln_le_58_tenths:
  fixes x :: real
  assumes "0 < x" "x \<le> 323.15"
  shows "ln x \<le> 5.8"
proof -
  have "x \<le> exp 5.8" using assms(2) exp_58_tenths_lower by linarith
  then have "ln x \<le> ln (exp (5.8::real))" using assms(1) by (subst ln_le_cancel_iff) simp_all
  then show ?thesis by simp
qed

lemma exp_le_power_3:
  fixes x :: real
  assumes "x \<le> real n"
  shows "exp x \<le> 3 ^ n"
proof -
  have "exp x \<le> exp (real n * 1)" using assms by simp
  also have "\<dots> = exp 1 ^ n" by (rule exp_of_nat_mult)
  also have "\<dots> \<le> 3 ^ n" by (rule power_mono [OF exp_le]) simp
  finally show ?thesis .
qed

lemma Pv_w_25_le: "SW_Psat_Pv_w 25 \<le> 101325"
proof -
  have l: "ln (298.15::real) \<le> 5.8" by (rule ln_le_58_tenths) simp_all
  have "(- 5800.2206 / 298.15) + 1.3914993 + (- 0.048640239) * 298.15
        + 0.000041764768 * 298.15 ^ 2 + (- 0.000000014452093) * 298.15 ^ 3
        + 6.5459673 * ln (298.15::real) \<le> real 9"
    using l by (simp add: power_divide)
  then have "SW_Psat_Pv_w 25 \<le> 3 ^ 9"
    unfolding SW_Psat_Pv_w_def Let_def
    by (intro exp_le_power_3) (simp add: power_divide)
  then show ?thesis by simp
qed

lemma Pv_w_50_le: "SW_Psat_Pv_w 50 \<le> 101325"
proof -
  have l: "ln (323.15::real) \<le> 5.8" by (rule ln_le_58_tenths) simp_all
  have "(- 5800.2206 / 323.15) + 1.3914993 + (- 0.048640239) * 323.15
        + 0.000041764768 * 323.15 ^ 2 + (- 0.000000014452093) * 323.15 ^ 3
        + 6.5459673 * ln (323.15::real) \<le> real 10"
    using l by (simp add: power_divide)
  then have "SW_Psat_Pv_w 50 \<le> 3 ^ 10"
    unfolding SW_Psat_Pv_w_def Let_def
    by (intro exp_le_power_3) (simp add: power_divide)
  then show ?thesis by simp
qed

lemma Pv_w_pos: "0 < SW_Psat_Pv_w T"
  by (simp add: SW_Psat_Pv_w_def Let_def)

lemma Psat_value_le_Pv_w:
  assumes "0 \<le> S"
  shows "SW_Psat_value T S \<le> SW_Psat_Pv_w T"
proof -
  have a: "(- 4.5818 / 10 ^ 4) * S \<le> 0"
    using assms by simp
  have b: "(- 2.0443 / 10 ^ 6) * S ^ 2 \<le> 0"
    by simp
  from a b have "(- 4.5818 / 10 ^ 4) * S + (- 2.0443 / 10 ^ 6) * S ^ 2 \<le> 0"
    by linarith
  then have "exp ((- 4.5818 / 10 ^ 4) * S + (- 2.0443 / 10 ^ 6) * S ^ 2) \<le> 1"
    by simp
  then have "SW_Psat_Pv_w T * exp ((- 4.5818 / 10 ^ 4) * S + (- 2.0443 / 10 ^ 6) * S ^ 2)
             \<le> SW_Psat_Pv_w T * 1"
    using Pv_w_pos [of T] by (intro mult_left_mono) simp_all
  then show ?thesis by (simp add: SW_Psat_value_def Let_def)
qed


lemma Psat_25_35: "SW_Psat 25 35 = Inr (SW_Psat_value 25 35)"
  by (simp add: SW_Psat_def)

lemma Psat_value_25_35_le: "SW_Psat_value 25 35 / 10 ^ 6 \<le> 0.101325"
  using Psat_value_le_Pv_w [of 35 25] Pv_w_25_le by simp

lemma Psat_value_50_0_le: "SW_Psat_value 50 0 / 10 ^ 6 \<le> 0.101325"
  using Psat_value_le_Pv_w [of 0 50] Pv_w_50_le by simp

subsection \<open>Calls whose guards pass\<close>

lemma SW_Psat_in_range:
  assumes "0 \<le> T" "T \<le> 180" "0 \<le> S" "S \<le> 160"
  shows "SW_Psat T S = Inr (SW_Psat_value T S)"
  using assms by (simp add: SW_Psat_def)

lemma SW_Density_in_range:
  assumes "0 \<le> T" "T \<le> 180" "0 \<le> S" "S \<le> 150"
    and "SW_Psat_value T S / 10 ^ 6 \<le> P" "P \<le> 12"
  shows "SW_Density T S P =
           Inr (SW_Density_value T S P (if T < 100 then 0.101325 else SW_Psat_value T S / 10 ^ 6))"
proof -
  have p: "SW_Psat T S = Inr (SW_Psat_value T S)"
    using assms by (simp add: SW_Psat_def)
  show ?thesis
    unfolding SW_Density_def SW_Density_P0_def using assms p by (simp add: Let_def)
qed

lemma SW_SpcHeat_in_range:
  assumes "0 \<le> T" "T \<le> 180" "0 \<le> S" "S \<le> 160"
    and "SW_Psat_value T S / 10 ^ 6 \<le> P" "P \<le> 12"
  shows "SW_SpcHeat T S P =
           Inr (SW_SpcHeat_value T S P (if T < 100 then 0.101325 else SW_Psat_value T S / 10 ^ 6))"
proof -
  have p: "SW_Psat T S = Inr (SW_Psat_value T S)"
    using assms by (simp add: SW_Psat_def)
  show ?thesis
    unfolding SW_SpcHeat_def SW_SpcHeat_P0_def using assms p by (simp add: Let_def)
qed

lemma SW_Enthalpy_in_range:
  assumes "10 \<le> T" "T \<le> 120" "0 \<le> S" "S \<le> 120"
    and "SW_Psat_value T S / 10 ^ 6 \<le> P" "P \<le> 12"
  shows "SW_Enthalpy T S P =
           Inr (SW_Enthalpy_value T S P (if T < 100 then 0.101325 else SW_Psat_value T S / 10 ^ 6))"
proof -
  have p: "SW_Psat T S = Inr (SW_Psat_value T S)"
    using assms by (simp add: SW_Psat_def)
  show ?thesis
    unfolding SW_Enthalpy_def SW_Enthalpy_P0_def using assms p by (simp add: Let_def)
qed

lemma SW_Entropy_in_range:
  assumes "10 \<le> T" "T \<le> 120" "0 \<le> S" "S \<le> 120"
    and "SW_Psat_value T S / 10 ^ 6 \<le> P" "P \<le> 12"
  shows "SW_Entropy T S P =
           Inr (SW_Entropy_value T S P (if T < 100 then 0.101325 else SW_Psat_value T S / 10 ^ 6))"
proof -
  have p: "SW_Psat T S = Inr (SW_Psat_value T S)"
    using assms by (simp add: SW_Psat_def)
  show ?thesis
    unfolding SW_Entropy_def SW_Entropy_P0_def using assms p by (simp add: Let_def)
qed

lemma SW_Gibbs_in_range:
  assumes "10 \<le> T" "T \<le> 120" "0 \<le> S" "S \<le> 120"
    and "SW_Psat_value T S / 10 ^ 6 \<le> P" "P \<le> 12"
  shows "\<exists>g. SW_Gibbs T S P = Inr g"
proof -
  have p: "SW_Psat T S = Inr (SW_Psat_value T S)"
    using assms by (simp add: SW_Psat_def)
  show ?thesis
    unfolding SW_Gibbs_def SW_Gibbs_P0_def using assms p by (simp add: Let_def)
qed

lemma SW_ChemPot_w_at_reference_pressure:
  assumes "10 \<le> T" "T \<le> 80" "0 \<le> S" "S \<le> 120"
    and "SW_Psat_value T S / 10 ^ 6 \<le> 0.101325"
  shows "\<exists>mu. SW_ChemPot_w T S 0.101325 = Inr mu"
proof -
  have p: "SW_Psat T S = Inr (SW_Psat_value T S)"
    using assms by (simp add: SW_Psat_def)
  obtain g where g: "SW_Gibbs T S 0.101325 = Inr g"
    using SW_Gibbs_in_range [of T S "0.101325"] assms by auto
  show ?thesis
    unfolding SW_ChemPot_w_def SW_ChemPot_w_P0_def using assms p g by (simp add: Let_def)
qed

subsection \<open>Flow exergy at 25 C, 35 g/kg and one atmosphere\<close>

lemma SW_FlowExergy_25_35:
  assumes "js_or T0 25 = 25" "js_or S0 35 = 35" "js_or P0 0.101325 = 0.101325"
  shows "SW_FlowExergy 25 35 0.101325 T0 S0 P0 =
           Inl (ReferenceError ''SW_SChemPot_s is not defined'')"
proof -
  have h: "SW_Enthalpy 25 35 0.101325 = Inr (SW_Enthalpy_value 25 35 0.101325 0.101325)"
    using SW_Enthalpy_in_range [of 25 35 "0.101325"] Psat_value_25_35_le by simp
  have s: "SW_Entropy 25 35 0.101325 = Inr (SW_Entropy_value 25 35 0.101325 0.101325)"
    using SW_Entropy_in_range [of 25 35 "0.101325"] Psat_value_25_35_le by simp
  obtain mu where m: "SW_ChemPot_w 25 35 0.101325 = Inr mu"
    using SW_ChemPot_w_at_reference_pressure [of 25 35] Psat_value_25_35_le by auto
  have c: "\<not> (0.101325 < SW_Psat_value 25 35 / 10 ^ 6)"
    using Psat_value_25_35_le by simp
  show ?thesis
    unfolding SW_FlowExergy_def Let_def assms using Psat_25_35 c h s m
    by (simp add: SW_SChemPot_s_def)
qed

lemma then_do_eq_Inr_iff: "then_do r k = Inr v \<longleftrightarrow> (\<exists>x. r = Inr x \<and> k x = Inr v)"
  by (cases r) simp_all

lemma SW_FlowExergy_never_returns: "SW_FlowExergy T S P T0 S0 P0 \<noteq> Inr v"
  by (simp add: SW_FlowExergy_def SW_SChemPot_s_def then_do_eq_Inr_iff Let_def)

lemma SW_FlowExergy_value_at_dead_state:
  assumes "S \<noteq> 0"
  shows "SW_FlowExergy_value S T0 h s h s mu x mu (x * (S / S)) = 0"
  using assms by (simp add: SW_FlowExergy_value_def)

lemma SW_FlowExergy_combined_bound_at_dead_state:
  "SW_FlowExergy 50 35 1 (Some 50) (Some 35) (Some 1) =
     Inl (Error ''Salinity is out of range for the chemical potential of water function 10 < T < 40 C; 0 < S < 42 g/kg; P_sat < P < 12 MPa'')"
proof -
  have p: "SW_Psat 50 35 = Inr (SW_Psat_value 50 35)"
    by (simp add: SW_Psat_def)
  have b: "SW_Psat_value 50 35 / 10 ^ 6 \<le> 1"
    using Psat_value_le_Pv_w [of 35 50] Pv_w_50_le by simp
  have c: "\<not> (1 < SW_Psat_value 50 35 / 10 ^ 6)"
    using b by simp
  have h: "SW_Enthalpy 50 35 1 = Inr (SW_Enthalpy_value 50 35 1 0.101325)"
    using SW_Enthalpy_in_range [of 50 35 1] b by simp
  have s: "SW_Entropy 50 35 1 = Inr (SW_Entropy_value 50 35 1 0.101325)"
    using SW_Entropy_in_range [of 50 35 1] b by simp
  have m: "SW_ChemPot_w 50 35 1 =
      Inl (Error ''Salinity is out of range for the chemical potential of water function 10 < T < 40 C; 0 < S < 42 g/kg; P_sat < P < 12 MPa'')"
    unfolding SW_ChemPot_w_def SW_ChemPot_w_P0_def using p c by (simp add: Let_def)
  show ?thesis
    unfolding SW_FlowExergy_def Let_def js_or.simps using p c h s m by simp
qed

lemma SW_FlowExergy_rejects_nonzero_small_S0:
  assumes "10 \<le> T" "T \<le> 80" "0 \<le> S" "S \<le> 120"
    and "SW_Psat T S = Inr psat" "psat / 10 ^ 6 \<le> P" "P \<le> 12"
    and "s0 < 0.1" "s0 \<noteq> 0"
  shows "SW_FlowExergy T S P T0 (Some s0) P0 =
           Inl (Error ''Reference salinity is out of allowed range for flow exergy function 0.1 < S0 < 120'')"
  unfolding SW_FlowExergy_def using assms by (simp add: Let_def)

lemma SW_FlowExergy_defaults:
  "SW_FlowExergy T S P None S0 P0 = SW_FlowExergy T S P (Some 25) S0 P0"
  "SW_FlowExergy T S P T0 None P0 = SW_FlowExergy T S P T0 (Some 35) P0"
  "SW_FlowExergy T S P T0 S0 None = SW_FlowExergy T S P T0 S0 (Some 0.101325)"
  unfolding SW_FlowExergy_def by (simp_all cong: if_cong)

subsection \<open>Salinity lowers the vapor pressure\<close>

lemma Psat_value_salinity_strict:
  assumes "0 < S"
  shows "SW_Psat_value T S < SW_Psat_value T 0"
proof -
  have a: "(- 4.5818 / 10 ^ 4) * S < 0"
    using assms by simp
  have b: "(- 2.0443 / 10 ^ 6) * S ^ 2 \<le> 0"
    by simp
  from a b have "(- 4.5818 / 10 ^ 4) * S + (- 2.0443 / 10 ^ 6) * S ^ 2 < 0"
    by linarith
  then have "exp ((- 4.5818 / 10 ^ 4) * S + (- 2.0443 / 10 ^ 6) * S ^ 2) < 1"
    by simp
  then have "SW_Psat_Pv_w T * exp ((- 4.5818 / 10 ^ 4) * S + (- 2.0443 / 10 ^ 6) * S ^ 2)
             < SW_Psat_Pv_w T * 1"
    using Pv_w_pos [of T] by (intro mult_strict_left_mono) simp_all
  then show ?thesis by (simp add: SW_Psat_value_def Let_def)
qed

lemma SW_Density_rejects_seawater_reference:
  "SW_Density 110 0 (SW_Psat_value 110 35 / 10 ^ 6) =
     Inl (Error ''Pressure is out of range for density function P_sat < P < 12 MPa'')"
proof -
  have p: "SW_Psat 110 0 = Inr (SW_Psat_value 110 0)"
    by (simp add: SW_Psat_def)
  have "SW_Psat_value 110 35 < SW_Psat_value 110 0"
    by (rule Psat_value_salinity_strict) simp
  then show ?thesis
    unfolding SW_Density_def SW_Density_P0_def using p by (simp add: Let_def)
qed

subsection \<open>Failures of each function\<close>

lemma fails_Inr [simp]: "fails_only_from table (Inr v)"
  by (simp add: fails_only_from_def)

lemma fails_Inl_Error [simp]:
  "fails_only_from table (Inl (Error m)) \<longleftrightarrow> m \<in> set (map range_text table)"
  by (simp add: fails_only_from_def)




























lemma Errors_Inr [simp]: "Errors_only_from table (Inr v)"
  by (simp add: Errors_only_from_def)

lemma Errors_Inl_ReferenceError [simp]: "Errors_only_from table (Inl (ReferenceError m))"
  by (simp add: Errors_only_from_def)

lemma Errors_Inl_Error [simp]:
  "Errors_only_from table (Inl (Error m)) \<longleftrightarrow>
     m \<in> set (map range_text table) \<or> m = reference_salinity_text"
  by (simp add: Errors_only_from_def)


subsection \<open>An upper bound on the vapor pressure at 110 C\<close>

lemma exp_62_tenths_lower: "(383.15::real) \<le> exp 6.2"
proof -
  have "exp (6.2::real) = exp (of_nat 62 * (1 / 10))" by simp
  also have "\<dots> = exp (1 / 10) ^ 62" by (rule exp_of_nat_mult)
  finally have e: "exp (6.2::real) = exp (1 / 10) ^ 62" .
  have "(383.15::real) \<le> 1.105 ^ 62" by (simp add: power_divide)
  also have "\<dots> \<le> exp (1 / 10) ^ 62" by (rule power_mono [OF exp_tenth_lower]) simp
  finally show ?thesis using e by simp
qed

lemma Pv_w_110_le: "SW_Psat_Pv_w 110 \<le> 12 * 10 ^ 6"
proof -
  have "(383.15::real) \<le> exp 6.2" by (rule exp_62_tenths_lower)
  then have "ln (383.15::real) \<le> ln (exp (6.2::real))"
    by (subst ln_le_cancel_iff) simp_all
  then have l: "ln (383.15::real) \<le> 6.2" by simp
  have "(- 5800.2206 / 383.15) + 1.3914993 + (- 0.048640239) * 383.15
        + 0.000041764768 * 383.15 ^ 2 + (- 0.000000014452093) * 383.15 ^ 3
        + 6.5459673 * ln (383.15::real) \<le> real 14"
    using l by (simp add: power_divide)
  then have "SW_Psat_Pv_w 110 \<le> 3 ^ 14"
    unfolding SW_Psat_Pv_w_def Let_def
    by (intro exp_le_power_3) (simp add: power_divide)
  then show ?thesis by simp
qed

lemma Psat_110_35: "SW_Psat 110 35 = Inr (SW_Psat_value 110 35)"
  by (simp add: SW_Psat_def)

lemma Psat_110_0: "SW_Psat 110 0 = Inr (SW_Psat_value 110 0)"
  by (simp add: SW_Psat_def)

lemma Psat_value_110_35_le: "SW_Psat_value 110 35 / 10 ^ 6 \<le> 12"
  using Psat_value_le_Pv_w [of 35 110] Pv_w_110_le by simp

lemma Psat_value_110_0_le: "SW_Psat_value 110 0 / 10 ^ 6 \<le> 12"
  using Psat_value_le_Pv_w [of 0 110] Pv_w_110_le by simp

subsection \<open>The reference pressure each function computes with\<close>

text \<open>The line of each function that resolves \<open>P0\<close>, against the rule.\<close>

lemma reference_pressure_lines:
  "SW_Density_P0 T S = resolvePressureReference T S"
  "SW_Enthalpy_P0 T S = resolvePressureReference T S"
  "SW_Entropy_P0 T S = resolvePressureReference T S"
  "SW_Gibbs_P0 T S = resolvePressureReference T S"
  "SW_SpcHeat_P0 T S = resolvePressureReference T S"
  "SW_IsobExp_P0 T S = resolvePressureReference T S"
  "SW_ChemPot_s_P0 T S = resolvePressureReference T S"
  "SW_ChemPot_w_P0 T S = resolvePressureReference T S"
  "SW_Diffusivity_P0 T S = resolvePressureReference T S"
  "SW_Kviscosity_P0 T S = resolvePressureReference T S"
  "SW_Prandtl_P0 T S = resolvePressureReference T S"
  "SW_OsmPress_P0 T S = resolvePressureReference T 0"
  by (simp_all add: resolvePressureReference_def then_do_def SW_Density_P0_def
      SW_Enthalpy_P0_def SW_Entropy_P0_def SW_Gibbs_P0_def SW_SpcHeat_P0_def SW_IsobExp_P0_def
      SW_ChemPot_s_P0_def SW_ChemPot_w_P0_def SW_Diffusivity_P0_def SW_Kviscosity_P0_def
      SW_Prandtl_P0_def SW_OsmPress_P0_def not_less split: sum.split)

text \<open>What each function returns, in terms of the reference pressure of the rule.\<close>

lemma Density_uses_rule:
  assumes "SW_Density T S P = Inr v"
  shows "\<exists>P0. resolvePressureReference T S = Inr P0 \<and> v = SW_Density_value T S P P0"
  using assms unfolding SW_Density_def Let_def
  by (auto simp: then_do_eq_Inr_iff reference_pressure_lines split: if_splits)

lemma Enthalpy_uses_rule:
  assumes "SW_Enthalpy T S P = Inr v"
  shows "\<exists>P0. resolvePressureReference T S = Inr P0 \<and> v = SW_Enthalpy_value T S P P0"
  using assms unfolding SW_Enthalpy_def Let_def
  by (auto simp: then_do_eq_Inr_iff reference_pressure_lines split: if_splits)

lemma Entropy_uses_rule:
  assumes "SW_Entropy T S P = Inr v"
  shows "\<exists>P0. resolvePressureReference T S = Inr P0 \<and> v = SW_Entropy_value T S P P0"
  using assms unfolding SW_Entropy_def Let_def
  by (auto simp: then_do_eq_Inr_iff reference_pressure_lines split: if_splits)

lemma Gibbs_uses_rule:
  assumes "SW_Gibbs T S P = Inr v"
  shows "\<exists>P0. resolvePressureReference T S = Inr P0
           \<and> v = SW_Gibbs_g_w T + SW_Gibbs_g_sw_P0 T S + SW_Gibbs_g_sw_P T S P P0"
  using assms unfolding SW_Gibbs_def Let_def
  by (auto simp: then_do_eq_Inr_iff reference_pressure_lines split: if_splits)

lemma SpcHeat_uses_rule:
  assumes "SW_SpcHeat T S P = Inr v"
  shows "\<exists>P0. resolvePressureReference T S = Inr P0 \<and> v = SW_SpcHeat_value T S P P0"
  using assms unfolding SW_SpcHeat_def Let_def
  by (auto simp: then_do_eq_Inr_iff reference_pressure_lines split: if_splits)

lemma IsobExp_uses_rule:
  assumes "SW_IsobExp T S P = Inr v"
  shows "\<exists>P0. resolvePressureReference T S = Inr P0 \<and> v = SW_IsobExp_value T S P P0"
  using assms unfolding SW_IsobExp_def Let_def
  by (auto simp: then_do_eq_Inr_iff reference_pressure_lines split: if_splits)

lemma ChemPot_s_uses_rule:
  assumes "SW_ChemPot_s T S P = Inr v"
  shows "\<exists>P0 g. resolvePressureReference T S = Inr P0 \<and> (P \<le> P0 \<or> S \<le> 42 \<and> T \<le> 40)
           \<and> SW_Gibbs T S P = Inr g \<and> v = g + (1000 - S) * SW_ChemPot_s_dg_ds T S P P0"
  using assms unfolding SW_ChemPot_s_def Let_def
  by (auto simp: then_do_eq_Inr_iff reference_pressure_lines split: if_splits)

lemma ChemPot_w_uses_rule:
  assumes "SW_ChemPot_w T S P = Inr v"
  shows "\<exists>P0 g. resolvePressureReference T S = Inr P0 \<and> (P \<le> P0 \<or> S \<le> 42 \<and> T \<le> 40)
           \<and> SW_Gibbs T S P = Inr g \<and> v = g - SW_ChemPot_w_Sdg_dS T S P P0"
  using assms unfolding SW_ChemPot_w_def Let_def
  by (auto simp: then_do_eq_Inr_iff reference_pressure_lines split: if_splits)

lemma Diffusivity_uses_rule:
  assumes "SW_Diffusivity T S = Inr v"
  shows "\<exists>P0 rho cp K. resolvePressureReference T S = Inr P0 \<and> SW_Density T S P0 = Inr rho
           \<and> SW_SpcHeat T S P0 = Inr cp \<and> SW_Conductivity T S = Inr K \<and> v = K / (rho * cp)"
  using assms unfolding SW_Diffusivity_def
  by (auto simp: then_do_eq_Inr_iff reference_pressure_lines split: if_splits)

lemma Kviscosity_uses_rule:
  assumes "SW_Kviscosity T S = Inr v"
  shows "\<exists>P0 rho mu. resolvePressureReference T S = Inr P0 \<and> SW_Density T S P0 = Inr rho
           \<and> SW_Viscosity T S = Inr mu \<and> v = mu / rho"
  using assms unfolding SW_Kviscosity_def
  by (auto simp: then_do_eq_Inr_iff reference_pressure_lines split: if_splits)

lemma Prandtl_uses_rule:
  assumes "SW_Prandtl T S = Inr v"
  shows "\<exists>P0 cp mu K. resolvePressureReference T S = Inr P0 \<and> SW_SpcHeat T S P0 = Inr cp
           \<and> SW_Viscosity T S = Inr mu \<and> SW_Conductivity T S = Inr K \<and> v = cp * mu / K"
  using assms unfolding SW_Prandtl_def
  by (auto simp: then_do_eq_Inr_iff reference_pressure_lines split: if_splits)

lemma OsmPress_uses_rule_at_zero_salinity:
  assumes "SW_OsmPress T S = Inr v"
  shows "\<exists>P0 Phi rho. resolvePressureReference T 0 = Inr P0 \<and> SW_OsmCoeff T S = Inr Phi
           \<and> SW_Density T 0 P0 = Inr rho
           \<and> v = Phi * (1000 * S / ((1000 - S) * 31.4038218)) * 8.3144598 * (T + 273.15) * rho
                 / 10 ^ 6"
  using assms unfolding SW_OsmPress_def Let_def
  by (auto simp: then_do_eq_Inr_iff reference_pressure_lines split: if_splits)

subsection \<open>Calls that return at 110 C and at 25 C\<close>

lemma SW_IsobExp_in_range:
  assumes "0 \<le> T" "T \<le> 180" "0 \<le> S" "S \<le> 150"
    and "SW_Psat_value T S / 10 ^ 6 \<le> P" "P \<le> 12"
  shows "SW_IsobExp T S P =
           Inr (SW_IsobExp_value T S P (if T < 100 then 0.101325 else SW_Psat_value T S / 10 ^ 6))"
proof -
  have p: "SW_Psat T S = Inr (SW_Psat_value T S)"
    using assms by (simp add: SW_Psat_def)
  show ?thesis
    unfolding SW_IsobExp_def SW_IsobExp_P0_def using assms p by (simp add: Let_def)
qed

lemma SW_ChemPot_s_at_reference_pressure:
  assumes "10 \<le> T" "T \<le> 80" "0.1 \<le> S" "S \<le> 120"
    and "SW_Psat_value T S / 10 ^ 6 \<le> 0.101325"
  shows "\<exists>mu. SW_ChemPot_s T S 0.101325 = Inr mu"
proof -
  have p: "SW_Psat T S = Inr (SW_Psat_value T S)"
    using assms by (simp add: SW_Psat_def)
  obtain g where g: "SW_Gibbs T S 0.101325 = Inr g"
    using SW_Gibbs_in_range [of T S "0.101325"] assms by auto
  show ?thesis
    unfolding SW_ChemPot_s_def SW_ChemPot_s_P0_def using assms p g by (simp add: Let_def)
qed

lemma Density_110_35_at_saturation:
  "SW_Density 110 35 (SW_Psat_value 110 35 / 10 ^ 6) =
     Inr (SW_Density_value 110 35 (SW_Psat_value 110 35 / 10 ^ 6) (SW_Psat_value 110 35 / 10 ^ 6))"
  using SW_Density_in_range [of 110 35 "SW_Psat_value 110 35 / 10 ^ 6"] Psat_value_110_35_le
  by simp

lemma SpcHeat_110_35_at_saturation:
  "SW_SpcHeat 110 35 (SW_Psat_value 110 35 / 10 ^ 6) =
     Inr (SW_SpcHeat_value 110 35 (SW_Psat_value 110 35 / 10 ^ 6) (SW_Psat_value 110 35 / 10 ^ 6))"
  using SW_SpcHeat_in_range [of 110 35 "SW_Psat_value 110 35 / 10 ^ 6"] Psat_value_110_35_le
  by simp

lemma Density_110_0_at_saturation:
  "SW_Density 110 0 (SW_Psat_value 110 0 / 10 ^ 6) =
     Inr (SW_Density_value 110 0 (SW_Psat_value 110 0 / 10 ^ 6) (SW_Psat_value 110 0 / 10 ^ 6))"
  using SW_Density_in_range [of 110 0 "SW_Psat_value 110 0 / 10 ^ 6"] Psat_value_110_0_le
  by simp

lemma Diffusivity_110_35_returns: "\<exists>v. SW_Diffusivity 110 35 = Inr v"
  unfolding SW_Diffusivity_def SW_Diffusivity_P0_def
  using Psat_110_35 Density_110_35_at_saturation SpcHeat_110_35_at_saturation
  by (simp add: SW_Conductivity_def)

lemma Kviscosity_110_35_returns: "\<exists>v. SW_Kviscosity 110 35 = Inr v"
  unfolding SW_Kviscosity_def SW_Kviscosity_P0_def
  using Psat_110_35 Density_110_35_at_saturation
  by (simp add: SW_Viscosity_def)

lemma Prandtl_110_35_returns: "\<exists>v. SW_Prandtl 110 35 = Inr v"
  unfolding SW_Prandtl_def SW_Prandtl_P0_def
  using Psat_110_35 SpcHeat_110_35_at_saturation
  by (simp add: SW_Viscosity_def SW_Conductivity_def)

lemma OsmPress_110_35:
  "SW_OsmPress 110 35 =
     Inr (SW_OsmCoeff_direct 110 35 * (1000 * 35 / ((1000 - 35) * 31.4038218)) * 8.3144598
          * (110 + 273.15)
          * SW_Density_value 110 0 (SW_Psat_value 110 0 / 10 ^ 6) (SW_Psat_value 110 0 / 10 ^ 6)
          / 10 ^ 6)"
  unfolding SW_OsmPress_def SW_OsmPress_P0_def Let_def
  using Psat_110_0 Density_110_0_at_saturation
  by (simp add: SW_OsmCoeff_def)

subsection \<open>The density formula is positive on its domain\<close>

text \<open>
  For \<open>0 \<le> T \<le> 180\<close> and \<open>0 \<le> S \<le> 150\<close> the pure-water polynomial is at
  least 751 kg/m^3, the salinity correction is not negative, and the pressure factor is
  an exponential: \<open>SW_Density\<close> never returns 0, so no caller divides by 0.
\<close>

lemma rho_w_lower:
  fixes T x2 x3 x4 :: real
  assumes "0 \<le> T" "x2 \<le> 32400" "0 \<le> x3" "x4 \<le> 1049760000"
  shows "751 \<le> 9.9992293295 * 10 ^ 2 + 2.0341179217 / 10 ^ 2 * T
        + (- 6.1624591598 / 10 ^ 3) * x2 + 2.2614664708 / 10 ^ 5 * x3
        + (- 4.6570659168 / 10 ^ 8) * x4"
  using assms by simp

lemma D_rho_factor_lower:
  fixes T x2 x3 y :: real
  assumes "T \<le> 180" "0 \<le> x2" "x3 \<le> 5832000" "y \<le> 0.15 * 32400"
  shows "0 \<le> 8.0200240891 * 10 ^ 2 + (- 2.0005183488) * T + 1.6771024982 / 10 ^ 2 * x2
        + (- 3.0600536746 / 10 ^ 5) * x3 + (- 1.6132224742 / 10 ^ 5) * y"
  using assms by simp

lemma SW_Density_value_pos:
  assumes "0 \<le> T" "T \<le> 180" "0 \<le> S" "S \<le> 150"
  shows "0 < SW_Density_value T S P P0"
proof -
  define s where "s = S / 1000"
  have s0: "0 \<le> s" and s1: "s \<le> 0.15"
    using assms by (simp_all add: s_def)
  have t2: "T ^ 2 \<le> 32400" using power_mono [OF assms(2,1), of 2] by simp
  have t3: "T ^ 3 \<le> 5832000" using power_mono [OF assms(2,1), of 3] by simp
  have t4: "T ^ 4 \<le> 1049760000" using power_mono [OF assms(2,1), of 4] by simp
  have p2: "0 \<le> T ^ 2" and p3: "0 \<le> T ^ 3" and p4: "0 \<le> T ^ 4"
    using assms(1) by simp_all
  have st: "s * T ^ 2 \<le> 0.15 * 32400"
    using s0 s1 t2 p2 by (intro mult_mono) simp_all
  have w: "751 \<le> 9.9992293295 * 10 ^ 2 + 2.0341179217 / 10 ^ 2 * T
        + (- 6.1624591598 / 10 ^ 3) * T ^ 2 + 2.2614664708 / 10 ^ 5 * T ^ 3
        + (- 4.6570659168 / 10 ^ 8) * T ^ 4"
    using assms(1) t2 p3 t4 by (rule rho_w_lower)
  have i: "0 \<le> 8.0200240891 * 10 ^ 2 + (- 2.0005183488) * T + 1.6771024982 / 10 ^ 2 * T ^ 2
        + (- 3.0600536746 / 10 ^ 5) * T ^ 3 + (- 1.6132224742 / 10 ^ 5) * (s * T ^ 2)"
    using assms(2) p2 t3 st by (rule D_rho_factor_lower)
  have d: "8.0200240891 * 10 ^ 2 * s + (- 2.0005183488) * s * T + 1.6771024982 / 10 ^ 2 * s * T ^ 2
        + (- 3.0600536746 / 10 ^ 5) * s * T ^ 3 + (- 1.6132224742 / 10 ^ 5) * s ^ 2 * T ^ 2
      = s * (8.0200240891 * 10 ^ 2 + (- 2.0005183488) * T + 1.6771024982 / 10 ^ 2 * T ^ 2
        + (- 3.0600536746 / 10 ^ 5) * T ^ 3 + (- 1.6132224742 / 10 ^ 5) * (s * T ^ 2))"
    by (simp add: algebra_simps power2_eq_square)
  have "0 \<le> 8.0200240891 * 10 ^ 2 * s + (- 2.0005183488) * s * T + 1.6771024982 / 10 ^ 2 * s * T ^ 2
        + (- 3.0600536746 / 10 ^ 5) * s * T ^ 3 + (- 1.6132224742 / 10 ^ 5) * s ^ 2 * T ^ 2"
    unfolding d using s0 i by (rule mult_nonneg_nonneg)
  with w have "0 < (9.9992293295 * 10 ^ 2 + 2.0341179217 / 10 ^ 2 * T
        + (- 6.1624591598 / 10 ^ 3) * T ^ 2 + 2.2614664708 / 10 ^ 5 * T ^ 3
        + (- 4.6570659168 / 10 ^ 8) * T ^ 4)
      + (8.0200240891 * 10 ^ 2 * s + (- 2.0005183488) * s * T + 1.6771024982 / 10 ^ 2 * s * T ^ 2
        + (- 3.0600536746 / 10 ^ 5) * s * T ^ 3 + (- 1.6132224742 / 10 ^ 5) * s ^ 2 * T ^ 2)"
    by linarith
  then show ?thesis
    unfolding SW_Density_value_def Let_def s_def [symmetric]
    by (intro mult_pos_pos exp_gt_zero)
qed

subsection \<open>The algebra of the Pitzer--Bronsted anchor\<close>

lemma anchor_algebra:
  fixes m :: real
  assumes "m \<noteq> 0"
  shows "1 - b * r + (p + b * r - 1) / m * m = p"
  using assms by simp

section \<open>Claims\<close>

text \<open>
  C1. The claim: for every valid dead state, \<open>SW_FlowExergy(T0, S0, P0, T0, S0, P0)\<close>
  returns a value close to 0. What the code does at the valid dead state
  \<open>(25, 35, 0.101325)\<close>: every guard passes, enthalpy, entropy and the water chemical
  potential are computed, and the call of \<open>SW_SChemPot_s\<close> at line 494 throws a
  \<open>ReferenceError\<close>, because no such function exists. No number is returned, for
  any arguments (\<open>SW_FlowExergy_never_returns\<close>). The returned combination itself
  would be 0 at a dead state (\<open>SW_FlowExergy_value_at_dead_state\<close>); and at a dead
  state above one atmosphere with \<open>S0 > 42\<close> or \<open>T0 > 40\<close> the call fails
  earlier, with the combined-bound error of \<open>SW_ChemPot_w\<close>
  (\<open>SW_FlowExergy_combined_bound_at_dead_state\<close>).
\<close>

theorem SW_FlowExergy_dead_state_throws:
  "SW_FlowExergy 25 35 0.101325 (Some 25) (Some 35) (Some 0.101325) =
     Inl (ReferenceError ''SW_SChemPot_s is not defined'')"
proof -
  have "js_or (Some 25) 25 = 25" and "js_or (Some 35) 35 = 35"
    and "js_or (Some 0.101325) 0.101325 = 0.101325"
    by simp_all
  then show ?thesis by (rule SW_FlowExergy_25_35)
qed



text \<open>
  C3. The claim: with in-range \<open>(T, S, P)\<close>, a supplied dead-state salinity below 0.1
  g/kg, \<open>S0 = 0\<close> included, raises the domain error on the dead-state salinity. What
  the code does for the supplied \<open>S0 = 0\<close>: line 480, \<open>S0 = S0 || 35\<close>, replaces it
  by 35, the check \<open>S0 < 0.1\<close> of line 483 passes, and the call goes on to the
  \<open>ReferenceError\<close> of line 494. (For a supplied \<open>S0 < 0.1\<close> other than 0 the
  domain error is raised, \<open>SW_FlowExergy_rejects_nonzero_small_S0\<close>, and arguments
  that are not supplied get the defaults, \<open>SW_FlowExergy_defaults\<close>.)
\<close>

theorem SW_FlowExergy_zero_S0_not_rejected:
  "SW_FlowExergy 25 35 0.101325 (Some 25) (Some 0) (Some 0.101325) =
     Inl (ReferenceError ''SW_SChemPot_s is not defined'')"
proof -
  have zero_is_falsy: "js_or (Some 0) 35 = 35"
    by simp
  have "js_or (Some 25) 25 = 25" and "js_or (Some 0.101325) 0.101325 = 0.101325"
    by simp_all
  with zero_is_falsy show ?thesis by (intro SW_FlowExergy_25_35)
qed

text \<open>
  C4. For every \<open>(T, S, P)\<close> that both functions accept (\<open>0 \<le> T \<le> 180\<close>,
  \<open>0 \<le> S \<le> 150\<close>, \<open>SW_Psat(T,S)/1e6 \<le> P \<le> 12\<close>), \<open>SW_Density\<close> returns some
  \<open>rho\<close>, which is positive, and \<open>SW_Volume\<close> returns exactly \<open>1 / rho\<close>.
\<close>

theorem SW_Volume_reciprocal_of_Density:
  assumes "0 \<le> T" "T \<le> 180" "0 \<le> S" "S \<le> 150"
    and "SW_Psat T S = Inr psat" "psat / 10 ^ 6 \<le> P" "P \<le> 12"
  shows "\<exists>rho. SW_Density T S P = Inr rho \<and> 0 < rho \<and> SW_Volume T S P = Inr (1 / rho)"
proof -
  define P0 :: real where "P0 = (if T < 100 then 0.101325 else SW_Psat_value T S / 10 ^ 6)"
  have "SW_Psat T S = Inr (SW_Psat_value T S)"
    using assms by (simp add: SW_Psat_def)
  with assms(5) have "psat = SW_Psat_value T S" by simp
  with assms have d: "SW_Density T S P = Inr (SW_Density_value T S P P0)"
    unfolding P0_def by (intro SW_Density_in_range) simp_all
  have pos: "0 < SW_Density_value T S P P0"
    using assms(1-4) by (rule SW_Density_value_pos)
  have "SW_Volume T S P = then_do (SW_Density T S P) (\<lambda>rho. Inr (1 / rho))"
    using assms unfolding SW_Volume_def by simp
  with d pos show ?thesis by simp
qed

theorem SW_Volume_reciprocal_of_Density_witness:
  "SW_Psat 25 35 = Inr (SW_Psat_value 25 35) \<and> SW_Psat_value 25 35 / 10 ^ 6 \<le> 0.101325
   \<and> (\<exists>rho. SW_Density 25 35 0.101325 = Inr rho \<and> 0 < rho
          \<and> SW_Volume 25 35 0.101325 = Inr (1 / rho))"
  using SW_Volume_reciprocal_of_Density [of 25 35 "SW_Psat_value 25 35" "0.101325"]
    Psat_25_35 Psat_value_25_35_le by simp

text \<open>
  C5. For every \<open>(T, S)\<close> with \<open>0 \<le> T \<le> 180\<close> and \<open>0 \<le> S \<le> 150\<close>, and
  \<open>P0\<close> equal to 0.101325 when \<open>T < 100\<close> and to \<open>SW_Psat(T,S)/1e6\<close> otherwise,
  \<open>SW_Diffusivity(T, S)\<close> is the sequence \<open>SW_Density(T,S,P0)\<close>,
  \<open>SW_SpcHeat(T,S,P0)\<close>, \<open>SW_Conductivity(T,S)\<close> followed by \<open>K / (rho * cp)\<close>: it
  fails exactly as the first failing sub-call does, and whenever the three sub-calls
  return \<open>rho\<close>, \<open>cp\<close> and \<open>K\<close> it returns \<open>K / (rho * cp)\<close>.
\<close>

theorem SW_Diffusivity_consistent:
  assumes "0 \<le> T" "T \<le> 180" "0 \<le> S" "S \<le> 150"
    and "SW_Psat T S = Inr psat"
    and "P0 = (if T < 100 then 0.101325 else psat / 10 ^ 6)"
  shows "SW_Diffusivity T S =
           then_do (SW_Density T S P0) (\<lambda>rho.
           then_do (SW_SpcHeat T S P0) (\<lambda>cp.
           then_do (SW_Conductivity T S) (\<lambda>K. Inr (K / (rho * cp)))))
         \<and> (\<forall>rho cp K. SW_Density T S P0 = Inr rho \<and> SW_SpcHeat T S P0 = Inr cp \<and>
               SW_Conductivity T S = Inr K \<longrightarrow> SW_Diffusivity T S = Inr (K / (rho * cp)))"
proof -
  have r: "SW_Diffusivity_P0 T S = Inr P0"
    using assms(5,6) by (simp add: SW_Diffusivity_P0_def)
  have c: "SW_Diffusivity T S =
           then_do (SW_Density T S P0) (\<lambda>rho.
           then_do (SW_SpcHeat T S P0) (\<lambda>cp.
           then_do (SW_Conductivity T S) (\<lambda>K. Inr (K / (rho * cp)))))"
    unfolding SW_Diffusivity_def using assms(1-4) r by simp
  then show ?thesis by simp
qed

theorem SW_Diffusivity_consistent_witness:
  "SW_Density 25 35 0.101325 = Inr (SW_Density_value 25 35 0.101325 0.101325)
   \<and> SW_SpcHeat 25 35 0.101325 = Inr (SW_SpcHeat_value 25 35 0.101325 0.101325)
   \<and> SW_Conductivity 25 35 = Inr (SW_Conductivity_value 25 35)
   \<and> SW_Diffusivity 25 35 =
       Inr (SW_Conductivity_value 25 35 /
            (SW_Density_value 25 35 0.101325 0.101325 * SW_SpcHeat_value 25 35 0.101325 0.101325))"
proof -
  have d: "SW_Density 25 35 0.101325 = Inr (SW_Density_value 25 35 0.101325 0.101325)"
    using SW_Density_in_range [of 25 35 "0.101325"] Psat_value_25_35_le by simp
  have c: "SW_SpcHeat 25 35 0.101325 = Inr (SW_SpcHeat_value 25 35 0.101325 0.101325)"
    using SW_SpcHeat_in_range [of 25 35 "0.101325"] Psat_value_25_35_le by simp
  have k: "SW_Conductivity 25 35 = Inr (SW_Conductivity_value 25 35)"
    by (simp add: SW_Conductivity_def)
  have "SW_Diffusivity 25 35 =
       Inr (SW_Conductivity_value 25 35 /
            (SW_Density_value 25 35 0.101325 0.101325 * SW_SpcHeat_value 25 35 0.101325 0.101325))"
    using SW_Diffusivity_consistent [of 25 35 "SW_Psat_value 25 35" "0.101325"] Psat_25_35 d c k
    by simp
  with d c k show ?thesis by simp
qed

text \<open>
  C6. \<open>SW_Gibbs(50, 0, 0.101325)\<close> does not throw and returns the pure-water polynomial
  \<open>a1 + a2 T + a3 T^2 + a4 T^3 + a5 T^4\<close> at \<open>T = 50\<close> alone: the guard \<open>S > 0\<close>
  skips the term with \<open>log(S)\<close>, so the salinity term is \<open>0\<close>, and the pressure term is
  \<open>(P - P0) * ...\<close> with \<open>P = P0 = 0.101325\<close>, so it is \<open>0\<close> as well.
\<close>

theorem SW_Gibbs_zero_salinity:
  "SW_Gibbs 50 0 0.101325 =
     Inr (1.0677 * 10 ^ 2 + (- 1.4303) * 50 + (- 7.6139) * 50 ^ 2
          + 8.3627 / 10 ^ 3 * 50 ^ 3 + (- 7.8754 / 10 ^ 6) * 50 ^ 4)"
proof -
  have p: "SW_Psat 50 0 = Inr (SW_Psat_value 50 0)"
    by (simp add: SW_Psat_def)
  have c: "\<not> (0.101325 < SW_Psat_value 50 0 / 10 ^ 6)"
    using Psat_value_50_0_le by simp
  have s: "SW_Gibbs_g_sw_P0 50 0 = 0"
    by (simp add: SW_Gibbs_g_sw_P0_def)
  have q: "SW_Gibbs_g_sw_P 50 0 0.101325 0.101325 = 0"
    by (simp add: SW_Gibbs_g_sw_P_def)
  have w: "SW_Gibbs_g_w 50 = 1.0677 * 10 ^ 2 + (- 1.4303) * 50 + (- 7.6139) * 50 ^ 2
          + 8.3627 / 10 ^ 3 * 50 ^ 3 + (- 7.8754 / 10 ^ 6) * 50 ^ 4"
    by (simp add: SW_Gibbs_g_w_def Let_def)
  have "SW_Gibbs 50 0 0.101325 = Inr (SW_Gibbs_g_w 50 + SW_Gibbs_g_sw_P0 50 0 + SW_Gibbs_g_sw_P 50 0 0.101325 0.101325)"
    unfolding SW_Gibbs_def using p c by (simp add: SW_Gibbs_P0_def Let_def)
  then show ?thesis unfolding s q w by simp
qed

text \<open>
  C7. For every \<open>T\<close> in \<open>[0, 120]\<close>, \<open>SW_OsmCoeff(T, 10)\<close> takes the \<open>S \<le> 10\<close>
  branch, and the value of that branch at \<open>S = 10\<close>,
  \<open>1 - beta * sqrt m + lambda * m\<close> with \<open>m\<close> the anchor molality, equals the
  polynomial of the other branch evaluated at \<open>S = 10\<close>, exactly over the reals.
\<close>

theorem SW_OsmCoeff_anchor_matches_direct:
  assumes "0 \<le> T" "T \<le> 120"
  shows "SW_OsmCoeff T 10 = Inr (SW_OsmCoeff_anchor T 10)
         \<and> SW_OsmCoeff_anchor T 10 = SW_OsmCoeff_direct T 10"
proof -
  have a: "SW_OsmCoeff T 10 = Inr (SW_OsmCoeff_anchor T 10)"
    using assms by (simp add: SW_OsmCoeff_def)
  have b: "SW_OsmCoeff_anchor T 10 = SW_OsmCoeff_direct T 10"
    unfolding SW_OsmCoeff_anchor_def SW_OsmCoeff_direct_def Let_def
    by (rule anchor_algebra) simp
  from a b show ?thesis by simp
qed

theorem SW_OsmCoeff_anchor_matches_direct_witness:
  "SW_OsmCoeff 25 10 = Inr (SW_OsmCoeff_anchor 25 10)
   \<and> SW_OsmCoeff_anchor 25 10 = SW_OsmCoeff_direct 25 10"
proof -
  have "(0::real) \<le> 25" "(25::real) \<le> 120" by simp_all
  then show ?thesis by (rule SW_OsmCoeff_anchor_matches_direct)
qed

text \<open>
  C8. The claim: every pressure-dependent property function, the composites that
  resolve a reference pressure included, takes \<open>P0 = 0.101325\<close> when \<open>T < 100\<close>
  and \<open>P0 = SW_Psat(T, S)/1e6\<close> otherwise. \<open>SW_OsmPress\<close> is such a composite, and
  at \<open>(110, 35)\<close> it does not compute with that \<open>P0\<close>: the rule gives
  \<open>SW_Psat(110, 35)/1e6\<close>, at which the pure-water density that \<open>SW_OsmPress\<close> asks
  for is refused (the pressure is below \<open>SW_Psat(110, 0)/1e6\<close>), yet
  \<open>SW_OsmPress(110, 35)\<close> returns, with the density taken at \<open>SW_Psat(110, 0)/1e6\<close>.
\<close>

theorem SW_OsmPress_reference_pressure_differs:
  "SW_OsmPress 110 35 =
     Inr (SW_OsmCoeff_direct 110 35 * (1000 * 35 / ((1000 - 35) * 31.4038218)) * 8.3144598
          * (110 + 273.15)
          * SW_Density_value 110 0 (SW_Psat_value 110 0 / 10 ^ 6) (SW_Psat_value 110 0 / 10 ^ 6)
          / 10 ^ 6)
   \<and> resolvePressureReference 110 35 = Inr (SW_Psat_value 110 35 / 10 ^ 6)
   \<and> SW_Density 110 0 (SW_Psat_value 110 35 / 10 ^ 6) =
       Inl (Error ''Pressure is out of range for density function P_sat < P < 12 MPa'')
   \<and> SW_Psat_value 110 35 / 10 ^ 6 \<noteq> SW_Psat_value 110 0 / 10 ^ 6"
proof -
  have r: "resolvePressureReference 110 35 = Inr (SW_Psat_value 110 35 / 10 ^ 6)"
    by (simp add: resolvePressureReference_def Psat_110_35)
  have "SW_Psat_value 110 35 < SW_Psat_value 110 0"
    by (rule Psat_value_salinity_strict) simp
  then have n: "SW_Psat_value 110 35 / 10 ^ 6 \<noteq> SW_Psat_value 110 0 / 10 ^ 6"
    by simp
  from OsmPress_110_35 r SW_Density_rejects_seawater_reference n show ?thesis
    by (intro conjI)
qed

text \<open>
  C8, as the code has it: whenever one of density, enthalpy, entropy, Gibbs energy, heat
  capacity, isobaric expansivity, the two chemical potentials, diffusivity, kinematic
  viscosity and Prandtl number returns, the value returned is its formula computed with
  the \<open>P0\<close> that the rule gives at the function's own \<open>(T, S)\<close> (for the three
  composites: computed from the sub-calls made at that \<open>P0\<close>); whenever
  \<open>SW_OsmPress\<close> returns, its value is computed from the pure-water density at the
  \<open>P0\<close> that the rule gives at \<open>(T, 0)\<close>.
\<close>

theorem functions_use_reference_pressure_rule:
  "(SW_Density T S P = Inr v \<longrightarrow>
      (\<exists>P0. resolvePressureReference T S = Inr P0 \<and> v = SW_Density_value T S P P0))
   \<and> (SW_Enthalpy T S P = Inr v \<longrightarrow>
      (\<exists>P0. resolvePressureReference T S = Inr P0 \<and> v = SW_Enthalpy_value T S P P0))
   \<and> (SW_Entropy T S P = Inr v \<longrightarrow>
      (\<exists>P0. resolvePressureReference T S = Inr P0 \<and> v = SW_Entropy_value T S P P0))
   \<and> (SW_Gibbs T S P = Inr v \<longrightarrow>
      (\<exists>P0. resolvePressureReference T S = Inr P0
         \<and> v = SW_Gibbs_g_w T + SW_Gibbs_g_sw_P0 T S + SW_Gibbs_g_sw_P T S P P0))
   \<and> (SW_SpcHeat T S P = Inr v \<longrightarrow>
      (\<exists>P0. resolvePressureReference T S = Inr P0 \<and> v = SW_SpcHeat_value T S P P0))
   \<and> (SW_IsobExp T S P = Inr v \<longrightarrow>
      (\<exists>P0. resolvePressureReference T S = Inr P0 \<and> v = SW_IsobExp_value T S P P0))
   \<and> (SW_ChemPot_s T S P = Inr v \<longrightarrow>
      (\<exists>P0 g. resolvePressureReference T S = Inr P0 \<and> (P \<le> P0 \<or> S \<le> 42 \<and> T \<le> 40)
         \<and> SW_Gibbs T S P = Inr g \<and> v = g + (1000 - S) * SW_ChemPot_s_dg_ds T S P P0))
   \<and> (SW_ChemPot_w T S P = Inr v \<longrightarrow>
      (\<exists>P0 g. resolvePressureReference T S = Inr P0 \<and> (P \<le> P0 \<or> S \<le> 42 \<and> T \<le> 40)
         \<and> SW_Gibbs T S P = Inr g \<and> v = g - SW_ChemPot_w_Sdg_dS T S P P0))
   \<and> (SW_Diffusivity T S = Inr v \<longrightarrow>
      (\<exists>P0 rho cp K. resolvePressureReference T S = Inr P0 \<and> SW_Density T S P0 = Inr rho
         \<and> SW_SpcHeat T S P0 = Inr cp \<and> SW_Conductivity T S = Inr K \<and> v = K / (rho * cp)))
   \<and> (SW_Kviscosity T S = Inr v \<longrightarrow>
      (\<exists>P0 rho mu. resolvePressureReference T S = Inr P0 \<and> SW_Density T S P0 = Inr rho
         \<and> SW_Viscosity T S = Inr mu \<and> v = mu / rho))
   \<and> (SW_Prandtl T S = Inr v \<longrightarrow>
      (\<exists>P0 cp mu K. resolvePressureReference T S = Inr P0 \<and> SW_SpcHeat T S P0 = Inr cp
         \<and> SW_Viscosity T S = Inr mu \<and> SW_Conductivity T S = Inr K \<and> v = cp * mu / K))
   \<and> (SW_OsmPress T S = Inr v \<longrightarrow>
      (\<exists>P0 Phi rho. resolvePressureReference T 0 = Inr P0 \<and> SW_OsmCoeff T S = Inr Phi
         \<and> SW_Density T 0 P0 = Inr rho
         \<and> v = Phi * (1000 * S / ((1000 - S) * 31.4038218)) * 8.3144598 * (T + 273.15) * rho
               / 10 ^ 6))"
  by (intro conjI impI Density_uses_rule Enthalpy_uses_rule Entropy_uses_rule Gibbs_uses_rule
      SpcHeat_uses_rule IsobExp_uses_rule ChemPot_s_uses_rule ChemPot_w_uses_rule
      Diffusivity_uses_rule Kviscosity_uses_rule Prandtl_uses_rule
      OsmPress_uses_rule_at_zero_salinity)

theorem functions_use_reference_pressure_rule_witness:
  "resolvePressureReference 110 35 = Inr (SW_Psat_value 110 35 / 10 ^ 6)
   \<and> (\<exists>P0. resolvePressureReference 110 35 = Inr P0
         \<and> SW_Density 110 35 12 = Inr (SW_Density_value 110 35 12 P0))
   \<and> (\<exists>P0. resolvePressureReference 110 35 = Inr P0
         \<and> SW_Enthalpy 110 35 12 = Inr (SW_Enthalpy_value 110 35 12 P0))
   \<and> (\<exists>P0. resolvePressureReference 110 35 = Inr P0
         \<and> SW_Entropy 110 35 12 = Inr (SW_Entropy_value 110 35 12 P0))
   \<and> (\<exists>P0. resolvePressureReference 110 35 = Inr P0
         \<and> SW_Gibbs 110 35 12 =
             Inr (SW_Gibbs_g_w 110 + SW_Gibbs_g_sw_P0 110 35 + SW_Gibbs_g_sw_P 110 35 12 P0))
   \<and> (\<exists>P0. resolvePressureReference 110 35 = Inr P0
         \<and> SW_SpcHeat 110 35 12 = Inr (SW_SpcHeat_value 110 35 12 P0))
   \<and> (\<exists>P0. resolvePressureReference 110 35 = Inr P0
         \<and> SW_IsobExp 110 35 12 = Inr (SW_IsobExp_value 110 35 12 P0))
   \<and> (\<exists>P0 g. resolvePressureReference 25 35 = Inr P0 \<and> SW_Gibbs 25 35 0.101325 = Inr g
         \<and> SW_ChemPot_s 25 35 0.101325 =
             Inr (g + (1000 - 35) * SW_ChemPot_s_dg_ds 25 35 0.101325 P0))
   \<and> (\<exists>P0 g. resolvePressureReference 25 35 = Inr P0 \<and> SW_Gibbs 25 35 0.101325 = Inr g
         \<and> SW_ChemPot_w 25 35 0.101325 = Inr (g - SW_ChemPot_w_Sdg_dS 25 35 0.101325 P0))
   \<and> (\<exists>P0 rho cp K. resolvePressureReference 110 35 = Inr P0 \<and> SW_Density 110 35 P0 = Inr rho
         \<and> SW_SpcHeat 110 35 P0 = Inr cp \<and> SW_Conductivity 110 35 = Inr K
         \<and> SW_Diffusivity 110 35 = Inr (K / (rho * cp)))
   \<and> (\<exists>P0 rho mu. resolvePressureReference 110 35 = Inr P0 \<and> SW_Density 110 35 P0 = Inr rho
         \<and> SW_Viscosity 110 35 = Inr mu \<and> SW_Kviscosity 110 35 = Inr (mu / rho))
   \<and> (\<exists>P0 cp mu K. resolvePressureReference 110 35 = Inr P0 \<and> SW_SpcHeat 110 35 P0 = Inr cp
         \<and> SW_Viscosity 110 35 = Inr mu \<and> SW_Conductivity 110 35 = Inr K
         \<and> SW_Prandtl 110 35 = Inr (cp * mu / K))
   \<and> (\<exists>P0 Phi rho. resolvePressureReference 110 0 = Inr P0 \<and> SW_OsmCoeff 110 35 = Inr Phi
         \<and> SW_Density 110 0 P0 = Inr rho
         \<and> SW_OsmPress 110 35 =
             Inr (Phi * (1000 * 35 / ((1000 - 35) * 31.4038218)) * 8.3144598 * (110 + 273.15)
                  * rho / 10 ^ 6))"
proof -
  note rule = functions_use_reference_pressure_rule
  note c1 = rule [THEN conjunct1, rule_format]
  note c2 = rule [THEN conjunct2, THEN conjunct1, rule_format]
  note c3 = rule [THEN conjunct2, THEN conjunct2, THEN conjunct1, rule_format]
  note c4 = rule [THEN conjunct2, THEN conjunct2, THEN conjunct2, THEN conjunct1, rule_format]
  note c5 = rule [THEN conjunct2, THEN conjunct2, THEN conjunct2, THEN conjunct2, THEN conjunct1, rule_format]
  note c6 = rule [THEN conjunct2, THEN conjunct2, THEN conjunct2, THEN conjunct2, THEN conjunct2, THEN conjunct1, rule_format]
  note c7 = rule [THEN conjunct2, THEN conjunct2, THEN conjunct2, THEN conjunct2, THEN conjunct2, THEN conjunct2, THEN conjunct1, rule_format]
  note c8 = rule [THEN conjunct2, THEN conjunct2, THEN conjunct2, THEN conjunct2, THEN conjunct2, THEN conjunct2, THEN conjunct2, THEN conjunct1, rule_format]
  note c9 = rule [THEN conjunct2, THEN conjunct2, THEN conjunct2, THEN conjunct2, THEN conjunct2, THEN conjunct2, THEN conjunct2, THEN conjunct2, THEN conjunct1, rule_format]
  note c10 = rule [THEN conjunct2, THEN conjunct2, THEN conjunct2, THEN conjunct2, THEN conjunct2, THEN conjunct2, THEN conjunct2, THEN conjunct2, THEN conjunct2, THEN conjunct1, rule_format]
  note c11 = rule [THEN conjunct2, THEN conjunct2, THEN conjunct2, THEN conjunct2, THEN conjunct2, THEN conjunct2, THEN conjunct2, THEN conjunct2, THEN conjunct2, THEN conjunct2, THEN conjunct1, rule_format]
  note c12 = rule [THEN conjunct2, THEN conjunct2, THEN conjunct2, THEN conjunct2, THEN conjunct2, THEN conjunct2, THEN conjunct2, THEN conjunct2, THEN conjunct2, THEN conjunct2, THEN conjunct2, rule_format]
  have r: "resolvePressureReference 110 35 = Inr (SW_Psat_value 110 35 / 10 ^ 6)"
    by (simp add: resolvePressureReference_def Psat_110_35)
  obtain d where d: "SW_Density 110 35 12 = Inr d"
    using SW_Density_in_range [of 110 35 12] Psat_value_110_35_le by auto
  have w1: "\<exists>P0. resolvePressureReference 110 35 = Inr P0
         \<and> SW_Density 110 35 12 = Inr (SW_Density_value 110 35 12 P0)"
    using c1 [OF d] d by auto
  obtain h where h: "SW_Enthalpy 110 35 12 = Inr h"
    using SW_Enthalpy_in_range [of 110 35 12] Psat_value_110_35_le by auto
  have w2: "\<exists>P0. resolvePressureReference 110 35 = Inr P0
         \<and> SW_Enthalpy 110 35 12 = Inr (SW_Enthalpy_value 110 35 12 P0)"
    using c2 [OF h] h by auto
  obtain s where s: "SW_Entropy 110 35 12 = Inr s"
    using SW_Entropy_in_range [of 110 35 12] Psat_value_110_35_le by auto
  have w3: "\<exists>P0. resolvePressureReference 110 35 = Inr P0
         \<and> SW_Entropy 110 35 12 = Inr (SW_Entropy_value 110 35 12 P0)"
    using c3 [OF s] s by auto
  obtain g where g: "SW_Gibbs 110 35 12 = Inr g"
    using SW_Gibbs_in_range [of 110 35 12] Psat_value_110_35_le by auto
  have w4: "\<exists>P0. resolvePressureReference 110 35 = Inr P0
         \<and> SW_Gibbs 110 35 12 =
             Inr (SW_Gibbs_g_w 110 + SW_Gibbs_g_sw_P0 110 35 + SW_Gibbs_g_sw_P 110 35 12 P0)"
    using c4 [OF g] g by auto
  obtain c where c: "SW_SpcHeat 110 35 12 = Inr c"
    using SW_SpcHeat_in_range [of 110 35 12] Psat_value_110_35_le by auto
  have w5: "\<exists>P0. resolvePressureReference 110 35 = Inr P0
         \<and> SW_SpcHeat 110 35 12 = Inr (SW_SpcHeat_value 110 35 12 P0)"
    using c5 [OF c] c by auto
  obtain b where b: "SW_IsobExp 110 35 12 = Inr b"
    using SW_IsobExp_in_range [of 110 35 12] Psat_value_110_35_le by auto
  have w6: "\<exists>P0. resolvePressureReference 110 35 = Inr P0
         \<and> SW_IsobExp 110 35 12 = Inr (SW_IsobExp_value 110 35 12 P0)"
    using c6 [OF b] b by auto
  obtain ms where ms: "SW_ChemPot_s 25 35 0.101325 = Inr ms"
    using SW_ChemPot_s_at_reference_pressure [of 25 35] Psat_value_25_35_le by auto
  have w7: "\<exists>P0 g. resolvePressureReference 25 35 = Inr P0 \<and> SW_Gibbs 25 35 0.101325 = Inr g
         \<and> SW_ChemPot_s 25 35 0.101325 =
             Inr (g + (1000 - 35) * SW_ChemPot_s_dg_ds 25 35 0.101325 P0)"
    using c7 [OF ms] ms by auto
  obtain mw where mw: "SW_ChemPot_w 25 35 0.101325 = Inr mw"
    using SW_ChemPot_w_at_reference_pressure [of 25 35] Psat_value_25_35_le by auto
  have w8: "\<exists>P0 g. resolvePressureReference 25 35 = Inr P0 \<and> SW_Gibbs 25 35 0.101325 = Inr g
         \<and> SW_ChemPot_w 25 35 0.101325 = Inr (g - SW_ChemPot_w_Sdg_dS 25 35 0.101325 P0)"
    using c8 [OF mw] mw by auto
  obtain a where a: "SW_Diffusivity 110 35 = Inr a"
    using Diffusivity_110_35_returns by auto
  have w9: "\<exists>P0 rho cp K. resolvePressureReference 110 35 = Inr P0 \<and> SW_Density 110 35 P0 = Inr rho
         \<and> SW_SpcHeat 110 35 P0 = Inr cp \<and> SW_Conductivity 110 35 = Inr K
         \<and> SW_Diffusivity 110 35 = Inr (K / (rho * cp))"
    using c9 [OF a] a by auto
  obtain nu where nu: "SW_Kviscosity 110 35 = Inr nu"
    using Kviscosity_110_35_returns by auto
  have w10: "\<exists>P0 rho mu. resolvePressureReference 110 35 = Inr P0 \<and> SW_Density 110 35 P0 = Inr rho
         \<and> SW_Viscosity 110 35 = Inr mu \<and> SW_Kviscosity 110 35 = Inr (mu / rho)"
    using c10 [OF nu] nu by auto
  obtain pr where pr: "SW_Prandtl 110 35 = Inr pr"
    using Prandtl_110_35_returns by auto
  have w11: "\<exists>P0 cp mu K. resolvePressureReference 110 35 = Inr P0 \<and> SW_SpcHeat 110 35 P0 = Inr cp
         \<and> SW_Viscosity 110 35 = Inr mu \<and> SW_Conductivity 110 35 = Inr K
         \<and> SW_Prandtl 110 35 = Inr (cp * mu / K)"
    using c11 [OF pr] pr by auto
  obtain osm where osm: "SW_OsmPress 110 35 = Inr osm"
    using OsmPress_110_35 by blast
  have w12: "\<exists>P0 Phi rho. resolvePressureReference 110 0 = Inr P0 \<and> SW_OsmCoeff 110 35 = Inr Phi
         \<and> SW_Density 110 0 P0 = Inr rho
         \<and> SW_OsmPress 110 35 =
             Inr (Phi * (1000 * 35 / ((1000 - 35) * 31.4038218)) * 8.3144598 * (110 + 273.15)
                  * rho / 10 ^ 6)"
    using c12 [OF osm] osm by auto
  from r w1 w2 w3 w4 w5 w6 w7 w8 w9 w10 w11 w12 show ?thesis
    by (intro conjI)
qed

text \<open>
  C9. For every \<open>T\<close> in \<open>[0, 180]\<close>, every \<open>S\<close> with \<open>160 < S \<le> 180\<close> and any
  \<open>P\<close>, \<open>SW_SpcHeat(T, S, P)\<close> passes its own temperature and salinity guards and then
  fails with the salinity error of the vapor pressure function (bound 0--160 g/kg), the
  very result of calling \<open>SW_Psat(T, S)\<close> directly.
\<close>

theorem SW_SpcHeat_propagates_Psat_error:
  assumes "0 \<le> T" "T \<le> 180" "160 < S" "S \<le> 180"
  shows "SW_SpcHeat T S P =
           Inl (Error ''Salinity is out of range for vapor pressure function 0 < S < 160 g/kg'')
         \<and> SW_SpcHeat T S P = SW_Psat T S"
proof -
  have p: "SW_Psat T S =
      Inl (Error ''Salinity is out of range for vapor pressure function 0 < S < 160 g/kg'')"
    using assms by (simp add: SW_Psat_def)
  have "SW_SpcHeat T S P = then_do (SW_Psat T S) (\<lambda>p.
       let P_sat = p / 10 ^ 6 in
       if P < P_sat \<or> P > 12 then
         Inl (Error ''Pressure is out of range for specific heat capacity function P_sat < P < 12 MPa'')
       else then_do (SW_SpcHeat_P0 T S) (\<lambda>P0.
         Inr (SW_SpcHeat_value T S P P0)))"
    using assms unfolding SW_SpcHeat_def by simp
  then show ?thesis using p by simp
qed

theorem SW_SpcHeat_propagates_Psat_error_witness:
  "SW_SpcHeat 25 170 1 =
     Inl (Error ''Salinity is out of range for vapor pressure function 0 < S < 160 g/kg'')
   \<and> SW_SpcHeat 25 170 1 = SW_Psat 25 170"
proof -
  have "(0::real) \<le> 25" "(25::real) \<le> 180" "(160::real) < 170" "(170::real) \<le> 180"
    by simp_all
  then show ?thesis by (rule SW_SpcHeat_propagates_Psat_error)
qed

text \<open>
  C10. \<open>SW_ChemPot_w\<close> enforces the combined bound as well: for \<open>T\<close> in \<open>[10, 80]\<close>,
  \<open>S\<close> in \<open>[0, 120]\<close> and \<open>P\<close> in \<open>[SW_Psat(T,S)/1e6, 12]\<close> with
  \<open>P > 0.101325\<close> (the reference pressure, since \<open>T < 100\<close>), if \<open>S > 42\<close> or
  \<open>T > 40\<close> the call throws instead of returning a value.
\<close>

theorem SW_ChemPot_w_combined_bound:
  assumes "10 \<le> T" "T \<le> 80" "0 \<le> S" "S \<le> 120"
    and "SW_Psat T S = Inr psat" "psat / 10 ^ 6 \<le> P" "P \<le> 12"
    and "P > 0.101325" "S > 42 \<or> T > 40"
  shows "SW_ChemPot_w T S P = Inl (Error ''Salinity is out of range for the chemical potential of water function 10 < T < 40 C; 0 < S < 42 g/kg; P_sat < P < 12 MPa'')"
proof -
  have r: "SW_ChemPot_w_P0 T S = Inr 0.101325"
    using assms(2) by (simp add: SW_ChemPot_w_P0_def)
  show ?thesis
    unfolding SW_ChemPot_w_def using assms r by (simp add: Let_def)
qed

theorem SW_ChemPot_w_combined_bound_witness:
  "SW_Psat 25 50 = Inr (SW_Psat_value 25 50) \<and> SW_Psat_value 25 50 / 10 ^ 6 \<le> 1
   \<and> SW_ChemPot_w 25 50 1 = Inl (Error ''Salinity is out of range for the chemical potential of water function 10 < T < 40 C; 0 < S < 42 g/kg; P_sat < P < 12 MPa'')"
proof -
  have p: "SW_Psat 25 50 = Inr (SW_Psat_value 25 50)"
    by (simp add: SW_Psat_def)
  have b: "SW_Psat_value 25 50 / 10 ^ 6 \<le> 1"
    using Psat_value_le_Pv_w [of 50 25] Pv_w_25_le by simp
  show ?thesis
    using SW_ChemPot_w_combined_bound [of 25 50 "SW_Psat_value 25 50" 1] p b by simp
qed

end
